theory Spec2Isabelle
  imports Main "HOL-Library.Sublist"
begin

section \<open>JavaScript strings and values used by process_x12_997_files.js\<close>

text \<open>
  A JavaScript string is modelled as a \<open>string\<close> (a list of \<open>char\<close>): one \<open>char\<close> per
  code unit, which covers the ASCII / Latin-1 content of an X12 interchange. A value that
  may be \<open>undefined\<close> is an \<open>option\<close>, with \<open>None\<close> for \<open>undefined\<close>.
\<close>

definition opt_text :: "string option \<Rightarrow> string" where
  \<comment> \<open>Interpolation of a possibly undefined string in a template literal.\<close>
  "opt_text v = (case v of None \<Rightarrow> ''undefined'' | Some s \<Rightarrow> s)"

fun indexOf_from :: "string \<Rightarrow> string \<Rightarrow> nat \<Rightarrow> nat option" where
  "indexOf_from pat [] i = (if pat = [] then Some i else None)"
| "indexOf_from pat (c # cs) i =
     (if prefix pat (c # cs) then Some i else indexOf_from pat cs (Suc i))"

definition str_indexOf :: "string \<Rightarrow> string \<Rightarrow> nat option" where
  \<comment> \<open>\<open>s.indexOf(pat)\<close>; \<open>None\<close> stands for the result \<open>-1\<close>.\<close>
  "str_indexOf s pat = indexOf_from pat s 0"

definition str_substr :: "string \<Rightarrow> nat \<Rightarrow> nat \<Rightarrow> string" where
  \<comment> \<open>\<open>s.substr(start, len)\<close> for a start inside the string.\<close>
  "str_substr s start len = take len (drop start s)"

definition char_at :: "string \<Rightarrow> nat \<Rightarrow> string option" where
  \<comment> \<open>\<open>s[i]\<close>: the one-character string at index \<open>i\<close>, \<open>undefined\<close> past the end.\<close>
  "char_at s i = (if i < length s then Some [s ! i] else None)"

definition str_startsWith :: "string \<Rightarrow> string \<Rightarrow> bool" where
  "str_startsWith s p = prefix p s"

fun split_from :: "string \<Rightarrow> string \<Rightarrow> string \<Rightarrow> string list" where
  \<comment> \<open>Scan for a non-empty separator \<open>d # ds\<close>; \<open>cur\<close> is the piece being collected.\<close>
  "split_from sep cur [] = [cur]"
| "split_from [] cur (c # cs) = split_from [] (cur @ [c]) cs"
| "split_from (d # ds) cur (c # cs) =
     (if c = d \<and> prefix ds cs
      then cur # split_from (d # ds) [] (drop (length ds) cs)
      else split_from (d # ds) (cur @ [c]) cs)"

definition str_split :: "string \<Rightarrow> string option \<Rightarrow> string list" where
  \<comment> \<open>\<open>s.split(sep)\<close>: an undefined separator gives the whole string as one piece, the
      empty separator gives the single code units.\<close>
  "str_split s sep =
     (case sep of
        None \<Rightarrow> [s]
      | Some [] \<Rightarrow> map (\<lambda>c. [c]) s
      | Some (d # ds) \<Rightarrow> split_from (d # ds) [] s)"

definition is_white :: "char \<Rightarrow> bool" where
  \<comment> \<open>The white space and line terminator code units below 256: TAB, LF, VT, FF, CR,
      SP and NBSP.\<close>
  "is_white c = (c \<in> set [CHR 0x09, CHR 0x0A, CHR 0x0B, CHR 0x0C, CHR 0x0D, CHR 0x20, CHR 0xA0])"

definition str_trim :: "string \<Rightarrow> string" where
  "str_trim s = rev (dropWhile is_white (rev (dropWhile is_white s)))"

definition upper_char :: "char \<Rightarrow> char" where
  "upper_char c =
     (if (97::nat) \<le> of_char c \<and> of_char c \<le> (122::nat)
      then char_of (of_char c - (32::nat)) else c)"

definition str_toUpperCase :: "string \<Rightarrow> string" where
  \<comment> \<open>\<open>s.toUpperCase()\<close> on the ASCII letters. The program only compares the result with
      \<open>'A'\<close>, and no code unit other than \<open>a\<close> and \<open>A\<close> has the upper case form \<open>A\<close>.\<close>
  "str_toUpperCase s = map upper_char s"

definition elem_or :: "string list \<Rightarrow> nat \<Rightarrow> string \<Rightarrow> string" where
  \<comment> \<open>\<open>xs[i] || d\<close> on an array of strings: a missing or empty element gives \<open>d\<close>.\<close>
  "elem_or xs i d = (if i < length xs \<and> xs ! i \<noteq> [] then xs ! i else d)"

subsection \<open>Property reads on object literals\<close>

text \<open>
  The code tables are object literals, read with \<open>TABLE[code]\<close>. Such a read finds the
  table's own keys first and then the members every object inherits from
  \<open>Object.prototype\<close>; those are functions (one is an object), all truthy.
\<close>

datatype jsval =
    Undefined
  | Str string
  | Inherited string  \<comment> \<open>a member of \<open>Object.prototype\<close>, carried as the text it interpolates to\<close>

definition native_function :: "string \<Rightarrow> string" where
  "native_function n = ''function '' @ n @ ''() { [native code] }''"

definition Object_prototype :: "(string \<times> string) list" where
  \<comment> \<open>The members of \<open>Object.prototype\<close> under Node.js (the runtime is not part of
      the repository), each with the text a template literal gives for it.\<close>
  "Object_prototype =
    [(''constructor'', native_function ''Object''),
     (''__defineGetter__'', native_function ''__defineGetter__''),
     (''__defineSetter__'', native_function ''__defineSetter__''),
     (''hasOwnProperty'', native_function ''hasOwnProperty''),
     (''__lookupGetter__'', native_function ''__lookupGetter__''),
     (''__lookupSetter__'', native_function ''__lookupSetter__''),
     (''isPrototypeOf'', native_function ''isPrototypeOf''),
     (''propertyIsEnumerable'', native_function ''propertyIsEnumerable''),
     (''toString'', native_function ''toString''),
     (''valueOf'', native_function ''valueOf''),
     (''__proto__'', ''[object Object]''),
     (''toLocaleString'', native_function ''toLocaleString'')]"

definition get_prop :: "(string \<times> string) list \<Rightarrow> string \<Rightarrow> jsval" where
  "get_prop obj k =
     (case map_of obj k of
        Some v \<Rightarrow> Str v
      | None \<Rightarrow> (case map_of Object_prototype k of
                   Some t \<Rightarrow> Inherited t
                 | None \<Rightarrow> Undefined))"

fun truthy :: "jsval \<Rightarrow> bool" where
  "truthy Undefined = False"
| "truthy (Str s) = (s \<noteq> [])"
| "truthy (Inherited t) = True"

definition or_else :: "jsval \<Rightarrow> jsval \<Rightarrow> jsval" where
  \<comment> \<open>\<open>a || b\<close>\<close>
  "or_else a b = (if truthy a then a else b)"

fun to_text :: "jsval \<Rightarrow> string" where
  \<comment> \<open>Interpolation in a template literal.\<close>
  "to_text Undefined = ''undefined''"
| "to_text (Str s) = s"
| "to_text (Inherited t) = t"

section \<open>Error code tables\<close>

definition AK3_ERROR_ENUM :: "(string \<times> string) list" where
  "AK3_ERROR_ENUM =
    [(''1'', ''Unrecognized segment ID''),
     (''2'', ''Unexpected segment''),
     (''3'', ''Mandatory segment missing''),
     (''4'', ''Loop occurs over maximum times''),
     (''5'', ''Segment exceeds maximum use''),
     (''6'', ''Segment not in defined transaction set''),
     (''7'', ''Segment not in proper sequence''),
     (''8'', ''Segment has data element errors'')]"

definition AK4_ERROR_ENUM :: "(string \<times> string) list" where
  "AK4_ERROR_ENUM =
    [(''1'', ''Mandatory data element missing''),
     (''2'', ''Conditional required data element missing''),
     (''3'', ''Too many data elements''),
     (''4'', ''Data element too short''),
     (''5'', ''Data element too long''),
     (''6'', ''Invalid character in data element''),
     (''7'', ''Invalid code value''),
     (''8'', ''Invalid date''),
     (''9'', ''Invalid time''),
     (''10'', ''Exclusion condition violated''),
     (''12'', ''Too many repetitions''),
     (''13'', ''Too many components''),
     (''16'', ''Composite data structure contains excess trailing delimiters'')]"

definition AK5_CODE_ENUM :: "(string \<times> string) list" where
  "AK5_CODE_ENUM =
    [(''A'', ''Accepted''),
     (''E'', ''Accepted but errors were noted''),
     (''M'', ''Rejected, message authentication code (MAC) failed''),
     (''R'', ''Rejected''),
     (''W'', ''Rejected, assurance failed validity tests''),
     (''X'', ''Rejected, content after decryption could not be analyzed'')]"

definition AK9_CODE_ENUM :: "(string \<times> string) list" where
  "AK9_CODE_ENUM =
    [(''A'', ''Accepted''),
     (''E'', ''Accepted but errors were noted''),
     (''P'', ''Partially accepted''),
     (''R'', ''Rejected'')]"

definition ak3_errorDesc :: "string \<Rightarrow> jsval" where
  \<comment> \<open>\<open>AK3_ERROR_ENUM[errorCode] || `Error code ${errorCode}`\<close>\<close>
  "ak3_errorDesc errorCode =
     or_else (get_prop AK3_ERROR_ENUM errorCode) (Str (''Error code '' @ errorCode))"

definition ak4_errorDesc :: "string \<Rightarrow> jsval" where
  \<comment> \<open>\<open>AK4_ERROR_ENUM[errorCode] || `Error code ${errorCode}`\<close>\<close>
  "ak4_errorDesc errorCode =
     or_else (get_prop AK4_ERROR_ENUM errorCode) (Str (''Error code '' @ errorCode))"

definition ak5_ackDesc :: "string \<Rightarrow> jsval" where
  \<comment> \<open>\<open>AK5_CODE_ENUM[ackCode] || ackCode\<close>\<close>
  "ak5_ackDesc ackCode = or_else (get_prop AK5_CODE_ENUM ackCode) (Str ackCode)"

definition ak9_ackDesc :: "string \<Rightarrow> jsval" where
  \<comment> \<open>\<open>AK9_CODE_ENUM[ak901] || ak901\<close>\<close>
  "ak9_ackDesc ak901 = or_else (get_prop AK9_CODE_ENUM ak901) (Str ak901)"

section \<open>Delimiters and tokenizing\<close>

record delimiters =
  elementSep :: "string option"
  subElementSep :: "string option"
  segmentTerminator :: "string option"

definition parseDelimiters :: "string \<Rightarrow> delimiters" where
  "parseDelimiters edi =
     (let elementSep = char_at edi 3;
          subElementSep = char_at edi 104;
          segmentTerminator = char_at edi 105;
          segmentTerminator =
            (if char_at edi 106 = Some [CHR 0x0A] \<or> char_at edi 106 = Some [CHR 0x0D]
             then Some (opt_text segmentTerminator @ opt_text (char_at edi 106))
             else segmentTerminator)
      in \<lparr> elementSep = elementSep, subElementSep = subElementSep,
           segmentTerminator = segmentTerminator \<rparr>)"

definition safeSplit :: "string option \<Rightarrow> string option \<Rightarrow> string list" where
  \<comment> \<open>\<open>safeSplit(str, sep)\<close>, called without an index: the list of pieces.\<close>
  "safeSplit str sep =
     (case str of
        None \<Rightarrow> []
      | Some s \<Rightarrow> if s = [] then [] else str_split s sep)"

definition safeSplit_at :: "string option \<Rightarrow> string option \<Rightarrow> nat \<Rightarrow> string" where
  \<comment> \<open>\<open>safeSplit(str, sep, index)\<close>, called with an index: \<open>splitSegment[index] || ''\<close>.\<close>
  "safeSplit_at str sep index = elem_or (safeSplit str sep) index []"

section \<open>The acknowledgment walker\<close>

datatype event =
    LogInfo string  \<comment> \<open>\<open>userLog.info(message)\<close>\<close>
  | LogError string  \<comment> \<open>\<open>userLog.error(message)\<close>\<close>
  | PublishDataTags "(string \<times> string) list"  \<comment> \<open>\<open>publishDataTags([{label, value}, ...])\<close>\<close>

record element_error =
  pos :: string
  error :: jsval
  evalue :: string  \<comment> \<open>the field \<open>value\<close>\<close>

record seg_error =
  segId :: string
  segPos :: string
  loopId :: string
  segError :: jsval
  elementErrors :: "element_error list"

text \<open>
  The local variables of \<open>parse997File\<close> that the loop and \<open>flushTransaction\<close> update,
  with the two sinks (\<open>userLog\<close>, \<open>publishDataTags\<close>) as the ordered list \<open>sink\<close> of
  what was written to them. \<open>currentSegment\<close> is \<open>null\<close> or a reference to the object
  that line 174 pushes onto \<open>currentSegmentErrors\<close> as it creates it; the reference is
  kept as that object's index in the array, so that the push of line 184 through the
  reference is seen through the array as well.
\<close>

record walker =
  currentDocType :: string
  currentControlNumber :: string
  currentSegmentErrors :: "seg_error list"
  currentSegment :: "nat option"
  overallStatus :: string
  ak102 :: "string option"
  sink :: "event list"

definition elem_line :: "element_error \<Rightarrow> string" where
  "elem_line elemErr =
     [CHR 0x0A] @ ''    Element '' @ pos elemErr @ '': '' @ to_text (error elemErr)
       @ (if evalue elemErr \<noteq> []
          then '' [value: '' @ [CHR 0x22] @ evalue elemErr @ [CHR 0x22] @ '']''
          else [])"

definition seg_line :: "seg_error \<Rightarrow> string" where
  "seg_line segErr =
     (let loopInfo = (if loopId segErr \<noteq> [] then '' (loop '' @ loopId segErr @ '')'' else [])
      in ''  Segment '' @ segId segErr @ '' at position '' @ segPos segErr @ loopInfo
           @ '': '' @ to_text (segError segErr))"

definition add_seg :: "nat \<Rightarrow> string \<Rightarrow> nat \<times> seg_error \<Rightarrow> string" where
  \<comment> \<open>The body of \<open>currentSegmentErrors.forEach((segErr, idx) => ...)\<close>, for an array of
      length \<open>n\<close>.\<close>
  "add_seg n message p =
     (case p of (idx, segErr) \<Rightarrow>
        (let message = message @ seg_line segErr;
             message = (if length (elementErrors segErr) > 0
                        then foldl (\<lambda>m elemErr. m @ elem_line elemErr) message
                               (elementErrors segErr)
                        else message)
         in if idx < n - 1 then message @ [CHR 0x0A] else message))"

definition flush_message :: "string \<Rightarrow> walker \<Rightarrow> string" where
  "flush_message ackCode w =
     (let ackDesc = ak5_ackDesc ackCode;
          message = ''Transaction '' @ currentDocType w @ '' #'' @ currentControlNumber w
                      @ '': '' @ to_text ackDesc;
          errs = currentSegmentErrors w
      in if length errs > 0
         then foldl (add_seg (length errs)) (message @ [CHR 0x0A]) (zip [0..<length errs] errs)
         else message)"

definition flushTransaction :: "string \<Rightarrow> walker \<Rightarrow> walker" where
  "flushTransaction ackCode w =
     (if currentDocType w = [] then w
      else
        (let message = flush_message ackCode w;
             logged = (if ackCode = ''R'' then LogError message else LogInfo message)
         in w\<lparr> sink := sink w @ [logged],
               currentDocType := [],
               currentControlNumber := [],
               currentSegmentErrors := [],
               currentSegment := None \<rparr>))"

definition on_AK1 :: "string option \<Rightarrow> walker \<Rightarrow> string \<Rightarrow> walker" where
  "on_AK1 sep w seg =
     (let elements = safeSplit (Some seg) sep;
          v = elem_or elements 2 []
      in w\<lparr> ak102 := Some v,
            sink := sink w @ [PublishDataTags [(''997 Acked Group Control Number'', v)]] \<rparr>)"

definition on_AK2 :: "string option \<Rightarrow> walker \<Rightarrow> string \<Rightarrow> walker" where
  "on_AK2 sep w seg =
     (let elements = safeSplit (Some seg) sep
      in w\<lparr> currentDocType := elem_or elements 1 [],
            currentControlNumber := elem_or elements 2 [],
            currentSegmentErrors := [],
            currentSegment := None \<rparr>)"

definition on_AK3 :: "string option \<Rightarrow> walker \<Rightarrow> string \<Rightarrow> walker" where
  "on_AK3 sep w seg =
     (let elements = safeSplit (Some seg) sep;
          errorCode = elem_or elements 4 [];
          errorDesc = ak3_errorDesc errorCode;
          new = \<lparr> segId = elem_or elements 1 [],
                  segPos = elem_or elements 2 [],
                  loopId = elem_or elements 3 [],
                  segError = errorDesc,
                  elementErrors = [] \<rparr>
      in w\<lparr> currentSegment := Some (length (currentSegmentErrors w)),
            currentSegmentErrors := currentSegmentErrors w @ [new] \<rparr>)"

definition on_AK4 :: "string option \<Rightarrow> walker \<Rightarrow> string \<Rightarrow> walker" where
  "on_AK4 sep w seg =
     (let elements = safeSplit (Some seg) sep;
          elementPos = elem_or elements 1 [];
          elementRef = elem_or elements 2 [];
          errorCode = elem_or elements 3 [];
          badValue = elem_or elements 4 [];
          errorDesc = ak4_errorDesc errorCode
      in case currentSegment w of
           None \<Rightarrow> w
         | Some i \<Rightarrow>
             (let cur = currentSegmentErrors w ! i;
                  new = \<lparr> pos = (if elementRef \<noteq> [] then elementRef else elementPos),
                          error = errorDesc,
                          evalue = badValue \<rparr>
              in w\<lparr> currentSegmentErrors :=
                      (currentSegmentErrors w)
                        [i := cur\<lparr> elementErrors := elementErrors cur @ [new] \<rparr>] \<rparr>))"

definition on_AK5 :: "string option \<Rightarrow> walker \<Rightarrow> string \<Rightarrow> walker" where
  "on_AK5 sep w seg =
     (let elements = safeSplit (Some seg) sep;
          ackCode = elem_or elements 1 []
      in flushTransaction ackCode w)"

definition on_AK9 :: "string option \<Rightarrow> string option \<Rightarrow> walker \<Rightarrow> string \<Rightarrow> walker" where
  "on_AK9 sep fname w seg =
     (let elements = safeSplit (Some seg) sep;
          ak901 = elem_or elements 1 [];
          ackDesc = ak9_ackDesc ak901;
          received = elem_or elements 3 ''0'';
          accepted = elem_or elements 4 ''0'';
          w = w\<lparr> sink := sink w @
                 [LogInfo (''Functional Group Result for '' @ opt_text (ak102 w) @ '': ''
                    @ to_text ackDesc @ '' - '' @ accepted @ ''/'' @ received
                    @ '' transactions accepted'')] \<rparr>
      in if str_toUpperCase ak901 \<noteq> ''A'' \<and> overallStatus w = ''A''
         then w\<lparr> overallStatus := ak901,
                  sink := sink w @
                    [LogError (''997 acknowledging Group Control Number '' @ opt_text (ak102 w)
                       @ '' Not Accepted (AK901='' @ ak901 @ '') in file '' @ opt_text fname)] \<rparr>
         else w\<lparr> sink := sink w @
                    [LogInfo (''997 acknowledging Group Control Number '' @ opt_text (ak102 w)
                       @ '' '' @ to_text ackDesc @ '' (AK901='' @ ak901 @ '') in file ''
                       @ opt_text fname @ ''.'')] \<rparr>)"

definition step :: "string option \<Rightarrow> string option \<Rightarrow> walker \<Rightarrow> string \<Rightarrow> walker" where
  \<comment> \<open>One iteration of \<open>for (const seg of rawSegments)\<close>.\<close>
  "step sep fname w seg =
     (if str_startsWith seg ''AK1'' then on_AK1 sep w seg
      else if str_startsWith seg ''AK2'' then on_AK2 sep w seg
      else if str_startsWith seg ''AK3'' then on_AK3 sep w seg
      else if str_startsWith seg ''AK4'' then on_AK4 sep w seg
      else if str_startsWith seg ''AK5'' then on_AK5 sep w seg
      else if str_startsWith seg ''AK9'' then on_AK9 sep fname w seg
      else w)"

definition walk :: "string option \<Rightarrow> string option \<Rightarrow> walker \<Rightarrow> string list \<Rightarrow> walker" where
  "walk sep fname w rawSegments = foldl (step sep fname) w rawSegments"

definition init_walker :: "event list \<Rightarrow> walker" where
  \<comment> \<open>The declarations of lines 106 to 110 and 145, after what was already published.\<close>
  "init_walker evs =
     \<lparr> currentDocType = [], currentControlNumber = [], currentSegmentErrors = [],
       currentSegment = None, overallStatus = ''A'', ak102 = None, sink = evs \<rparr>"

section \<open>The file classifier\<close>

record source_file =
  body :: "string option"  \<comment> \<open>\<open>None\<close>: the record has no \<open>body\<close>\<close>
  file_name :: "string option"

datatype js_exn = TypeError string

fun exn_message :: "js_exn \<Rightarrow> string" where
  "exn_message (TypeError m) = m"

record classification =
  is997 :: bool
  file' :: source_file  \<comment> \<open>the field \<open>file\<close>\<close>
  status :: "string option"  \<comment> \<open>\<open>undefined\<close> in \<open>{ is997: false, file }\<close>\<close>

definition not_997 :: "source_file \<Rightarrow> classification" where
  \<comment> \<open>\<open>{ is997: false, file }\<close>\<close>
  "not_997 f = \<lparr> is997 = False, file' = f, status = None \<rparr>"

definition rawSegments_of :: "string \<Rightarrow> string option \<Rightarrow> string list" where
  \<comment> \<open>\<open>body.split(segmentTerminator).filter(s => s.trim().length > 0)\<close>\<close>
  "rawSegments_of b term = filter (\<lambda>s. length (str_trim s) > 0) (str_split b term)"

definition parse997File_try :: "source_file \<Rightarrow> (js_exn + classification) \<times> event list" where
  \<comment> \<open>The \<open>try\<close> block: what it returns or throws, and what it wrote to the sinks. Reading
      \<open>indexOf\<close> from a missing body throws; no later operation of the block can throw on
      a body that is a string.\<close>
  "parse997File_try f =
     (case body f of
        None \<Rightarrow>
          (Inl (TypeError (''Cannot read properties of undefined (reading ''
                  @ [CHR 0x27] @ ''indexOf'' @ [CHR 0x27] @ '')'')), [])
      | Some b \<Rightarrow>
          (case str_indexOf b ''ISA'' of
             None \<Rightarrow> (Inr (not_997 f), [])
           | Some isaStart \<Rightarrow>
               (let isaSeg = str_substr b isaStart 106;
                    d = parseDelimiters isaSeg;
                    rawSegments = rawSegments_of b (segmentTerminator d);
                    st01 = safeSplit_at (find (\<lambda>s. str_startsWith s ''ST'') rawSegments)
                             (elementSep d) 1
                in if st01 \<noteq> ''997'' then (Inr (not_997 f), [])
                   else
                     (let isa13 = safeSplit_at (Some isaSeg) (elementSep d) 13;
                          gs06 = safeSplit_at (find (\<lambda>s. str_startsWith s ''GS'') rawSegments)
                                   (elementSep d) 6;
                          w0 = init_walker
                                 [PublishDataTags
                                    [(''997 Ack File Interchange Control Number'', isa13),
                                     (''997 Ack File Group Control Number'', gs06)]];
                          w = walk (elementSep d) (file_name f) w0 rawSegments
                      in (Inr \<lparr> is997 = True, file' = f, status = Some (overallStatus w) \<rparr>,
                          sink w)))))"

definition parse997File :: "source_file \<Rightarrow> classification \<times> event list" where
  \<comment> \<open>The \<open>try\<close> block under its \<open>catch\<close>.\<close>
  "parse997File f =
     (case parse997File_try f of
        (Inr result, evs) \<Rightarrow> (result, evs)
      | (Inl err, evs) \<Rightarrow>
          (not_997 f,
           evs @ [LogError (''Error processing file '' @ opt_text (file_name f) @ '': ''
                    @ exn_message err)]))"

section \<open>The batch disposition\<close>

datatype disposition =
    Skipped "source_file list"  \<comment> \<open>\<open>returnSkipped(files)\<close>\<close>
  | Error "source_file list"  \<comment> \<open>\<open>returnError(files)\<close>\<close>
  | Success "source_file list"  \<comment> \<open>\<open>returnSuccess(files)\<close>\<close>

record batch =
  payload :: "source_file list"
  accepted :: "source_file list"
  rejected :: "source_file list"
  out :: "event list"

definition batch_step :: "batch \<Rightarrow> source_file \<Rightarrow> batch" where
  \<comment> \<open>One iteration of \<open>for (const sourceFile of sourceFiles)\<close>. \<open>result.file\<close> is an
      object, hence truthy.\<close>
  "batch_step b sourceFile =
     (case parse997File sourceFile of (result, evs) \<Rightarrow>
        (let b = b\<lparr> out := out b @ evs \<rparr>
         in if is997 result
            then (let b = b\<lparr> payload := payload b @ [file' result] \<rparr>
                  in if status result = Some ''A''
                     then b\<lparr> accepted := accepted b @ [file' result] \<rparr>
                     else b\<lparr> rejected := rejected b @ [file' result] \<rparr>)
            else b))"

definition run_batch :: "source_file list \<Rightarrow> batch" where
  "run_batch sourceFiles =
     foldl batch_step \<lparr> payload = [], accepted = [], rejected = [], out = [] \<rparr> sourceFiles"

definition process :: "source_file list \<Rightarrow> disposition" where
  \<comment> \<open>The script's final statement, on the lists the loop built.\<close>
  "process sourceFiles =
     (let b = run_batch sourceFiles
      in if length (payload b) = 0 then Skipped []
         else if length (rejected b) > 0 then Error (rejected b)
         else Success (accepted b))"

section \<open>Notions used to state the properties\<close>

text \<open>
  \<open>cursor_ok\<close>: the cursor \<open>currentSegment\<close> is \<open>null\<close> while no segment error has
  been accumulated, and otherwise designates exactly one of them, the last one pushed.
\<close>

definition cursor_ok :: "walker \<Rightarrow> bool" where
  "cursor_ok w =
     (case currentSegment w of
        None \<Rightarrow> currentSegmentErrors w = []
      | Some i \<Rightarrow> Suc i = length (currentSegmentErrors w))"

text \<open>
  The message of \<open>flushTransaction\<close> in closed form: the head line, then one block per
  segment error (its line followed by the lines of its element errors), the blocks
  separated by line feeds.
\<close>

fun join_lines :: "string list \<Rightarrow> string" where
  "join_lines [] = []"
| "join_lines [x] = x"
| "join_lines (x # y # ys) = x @ [CHR 0x0A] @ join_lines (y # ys)"

definition seg_block :: "seg_error \<Rightarrow> string" where
  "seg_block segErr = seg_line segErr @ concat (map elem_line (elementErrors segErr))"

definition transaction_head :: "string \<Rightarrow> walker \<Rightarrow> string" where
  "transaction_head ackCode w =
     ''Transaction '' @ currentDocType w @ '' #'' @ currentControlNumber w @ '': ''
       @ to_text (ak5_ackDesc ackCode)"

definition transaction_text :: "string \<Rightarrow> walker \<Rightarrow> string" where
  "transaction_text ackCode w =
     transaction_head ackCode w
       @ (if currentSegmentErrors w = [] then []
          else [CHR 0x0A] @ join_lines (map seg_block (currentSegmentErrors w)))"

text \<open>
  \<open>ak9_codes\<close>: the codes (field 1) of the AK9 segments of a segment list, in order.
  \<open>first_error_wins\<close>: the first of them that fails the walker's acceptance test of line
  202, or \<open>A\<close> when none does.
\<close>

definition ak9_codes :: "string option \<Rightarrow> string list \<Rightarrow> string list" where
  "ak9_codes sep segs =
     map (\<lambda>seg. elem_or (safeSplit (Some seg) sep) 1 [])
       (filter (\<lambda>seg. str_startsWith seg ''AK9'') segs)"

definition first_error_wins :: "string list \<Rightarrow> string" where
  "first_error_wins codes =
     (case find (\<lambda>c. str_toUpperCase c \<noteq> ''A'') codes of None \<Rightarrow> ''A'' | Some c \<Rightarrow> c)"

text \<open>
  \<open>classify\<close>: the value \<open>parse997File\<close> returns. \<open>payload_of\<close>: the files handed to
  \<open>returnSkipped\<close>, \<open>returnError\<close> or \<open>returnSuccess\<close>. \<open>file_sep\<close>,
  \<open>file_segments\<close> and \<open>file_st01\<close>: the element separator, the segment list
  \<open>rawSegments\<close> and the value \<open>st01\<close> that \<open>parse997File\<close> computes for a body.
\<close>

definition classify :: "source_file \<Rightarrow> classification" where
  "classify f = fst (parse997File f)"

fun payload_of :: "disposition \<Rightarrow> source_file list" where
  "payload_of (Skipped fs) = fs"
| "payload_of (Error fs) = fs"
| "payload_of (Success fs) = fs"

definition file_sep :: "string \<Rightarrow> string option" where
  "file_sep b =
     (case str_indexOf b ''ISA'' of
        None \<Rightarrow> None
      | Some isaStart \<Rightarrow> elementSep (parseDelimiters (str_substr b isaStart 106)))"

definition file_segments :: "string \<Rightarrow> string list" where
  "file_segments b =
     (case str_indexOf b ''ISA'' of
        None \<Rightarrow> []
      | Some isaStart \<Rightarrow>
          rawSegments_of b (segmentTerminator (parseDelimiters (str_substr b isaStart 106))))"

definition file_st01 :: "string \<Rightarrow> string" where
  "file_st01 b =
     safeSplit_at (find (\<lambda>s. str_startsWith s ''ST'') (file_segments b)) (file_sep b) 1"

subsection \<open>Sample inputs\<close>

text \<open>
  An interchange header of 106 characters (element separator \<open>*\<close> at offset 3, segment
  terminator \<open>~\<close> at offset 105), files built on it, and a walker state with an open
  transaction.
\<close>

definition isa_header :: string where
  "isa_header =
     ''ISA*00*          *00*          *ZZ*SENDERID       *ZZ*RECEIVERID     *210101*1200*U*00401*000000001*0*P*>~''"

definition accepted_997 :: source_file where
  "accepted_997 =
     \<lparr> body = Some (isa_header @
          ''GS*FA*S*R*20210101*1200*7*X*004010~ST*997*0001~AK1*PO*123~AK2*850*0001~AK5*A~AK9*A*1*1*1~SE*6*0001~GE*1*7~IEA*1*000000001~''),
       file_name = Some ''accepted.edi'' \<rparr>"

definition rejected_997 :: source_file where
  "rejected_997 =
     \<lparr> body = Some (isa_header @
          ''GS*FA*S*R*20210101*1200*7*X*004010~ST*997*0001~AK1*PO*123~AK2*850*0001~AK3*N1*4**8~AK4*1*66*1~AK5*R~AK9*R*1*1*0~SE*8*0001~GE*1*7~IEA*1*000000001~''),
       file_name = Some ''rejected.edi'' \<rparr>"

definition two_ak9_997 :: source_file where
  "two_ak9_997 =
     \<lparr> body = Some (isa_header @
          ''GS*FA*S*R*20210101*1200*7*X*004010~ST*997*0001~AK1*PO*123~AK9*a*1*1*1~AK9*E*1*1*1~AK9*R*1*1*0~SE*5*0001~GE*1*7~IEA*1*000000001~''),
       file_name = Some ''two.edi'' \<rparr>"

definition lowercase_997 :: source_file where
  "lowercase_997 =
     \<lparr> body = Some (isa_header @
          ''GS*FA*S*R*20210101*1200*7*X*004010~ST*997*0001~AK1*PO*123~AK9*a*1*1*1~SE*3*0001~GE*1*7~IEA*1*000000001~''),
       file_name = Some ''lower.edi'' \<rparr>"

definition invoice_810 :: source_file where
  "invoice_810 =
     \<lparr> body = Some (isa_header @
          ''GS*IN*S*R*20210101*1200*7*X*004010~ST*810*0001~SE*1*0001~GE*1*7~IEA*1*000000001~''),
       file_name = Some ''invoice.edi'' \<rparr>"

definition plain_text :: source_file where
  "plain_text = \<lparr> body = Some ''hello, world'', file_name = Some ''notes.txt'' \<rparr>"

definition no_body :: source_file where
  "no_body = \<lparr> body = None, file_name = Some ''empty.bin'' \<rparr>"

definition open_walker :: walker where
  "open_walker = walk (Some ''*'') (Some ''a.edi'') (init_walker [])
       [''AK2*850*0001'', ''AK3*N1*4**8'', ''AK4*1*66*1*X'']"

text \<open>The same kind of interchange with a line feed after every segment terminator.\<close>

definition lf_body :: string where
  "lf_body =
     (isa_header @ [CHR 0x0A]
          @ ''GS*FA*S*R*20210101*1200*7*X*004010~'' @ [CHR 0x0A]
          @ ''ST*997*0001~'' @ [CHR 0x0A]
          @ ''AK1*PO*123~'' @ [CHR 0x0A]
          @ ''AK9*A*1*1*1~'' @ [CHR 0x0A]
          @ ''SE*4*0001~'' @ [CHR 0x0A]
          @ ''GE*1*7~'' @ [CHR 0x0A]
          @ ''IEA*1*000000001~'' @ [CHR 0x0A])"

definition lf_997 :: source_file where
  "lf_997 = \<lparr> body = Some lf_body, file_name = Some ''lf.edi'' \<rparr>"

section \<open>Dispatch of the loop body\<close>

lemma startsWith_AK:
  "str_startsWith seg (CHR ''A'' # CHR ''K'' # c # []) \<Longrightarrow> d \<noteq> c \<Longrightarrow>
     \<not> str_startsWith seg (CHR ''A'' # CHR ''K'' # d # [])"
  by (auto simp: str_startsWith_def prefix_def)

lemma step_AK1: "str_startsWith seg ''AK1'' \<Longrightarrow> step sep fname w seg = on_AK1 sep w seg"
  by (simp add: step_def)

lemma step_AK2: "str_startsWith seg ''AK2'' \<Longrightarrow> step sep fname w seg = on_AK2 sep w seg"
  using startsWith_AK [of seg "CHR ''2''"] by (simp add: step_def)

lemma step_AK3: "str_startsWith seg ''AK3'' \<Longrightarrow> step sep fname w seg = on_AK3 sep w seg"
  using startsWith_AK [of seg "CHR ''3''"] by (simp add: step_def)

lemma step_AK4: "str_startsWith seg ''AK4'' \<Longrightarrow> step sep fname w seg = on_AK4 sep w seg"
  using startsWith_AK [of seg "CHR ''4''"] by (simp add: step_def)

lemma step_AK5: "str_startsWith seg ''AK5'' \<Longrightarrow> step sep fname w seg = on_AK5 sep w seg"
  using startsWith_AK [of seg "CHR ''5''"] by (simp add: step_def)

lemma step_AK9: "str_startsWith seg ''AK9'' \<Longrightarrow> step sep fname w seg = on_AK9 sep fname w seg"
  using startsWith_AK [of seg "CHR ''9''"] by (simp add: step_def)

lemma step_cases:
  obtains (AK1) "str_startsWith seg ''AK1''" "step sep fname w seg = on_AK1 sep w seg"
  | (AK2) "str_startsWith seg ''AK2''" "step sep fname w seg = on_AK2 sep w seg"
  | (AK3) "str_startsWith seg ''AK3''" "step sep fname w seg = on_AK3 sep w seg"
  | (AK4) "str_startsWith seg ''AK4''" "step sep fname w seg = on_AK4 sep w seg"
  | (AK5) "str_startsWith seg ''AK5''" "step sep fname w seg = on_AK5 sep w seg"
  | (AK9) "str_startsWith seg ''AK9''" "step sep fname w seg = on_AK9 sep fname w seg"
  | (other) "\<not> str_startsWith seg ''AK9''" "step sep fname w seg = w"
proof (cases "str_startsWith seg ''AK1''")
  case True then show ?thesis using AK1 step_AK1 by blast
next
  case n1: False
  show ?thesis
  proof (cases "str_startsWith seg ''AK2''")
    case True then show ?thesis using AK2 step_AK2 by blast
  next
    case n2: False
    show ?thesis
    proof (cases "str_startsWith seg ''AK3''")
      case True then show ?thesis using AK3 step_AK3 by blast
    next
      case n3: False
      show ?thesis
      proof (cases "str_startsWith seg ''AK4''")
        case True then show ?thesis using AK4 step_AK4 by blast
      next
        case n4: False
        show ?thesis
        proof (cases "str_startsWith seg ''AK5''")
          case True then show ?thesis using AK5 step_AK5 by blast
        next
          case n5: False
          show ?thesis
          proof (cases "str_startsWith seg ''AK9''")
            case True then show ?thesis using AK9 step_AK9 by blast
          next
            case n9: False
            have "step sep fname w seg = w"
              using n1 n2 n3 n4 n5 n9 by (simp add: step_def)
            with n9 show ?thesis using other by blast
          qed
        qed
      qed
    qed
  qed
qed

lemma indexOf_from_None: "indexOf_from pat s i = None \<longleftrightarrow> \<not> sublist pat s"
  by (induction s arbitrary: i) (auto simp: sublist_Cons_right)

lemma str_indexOf_None: "str_indexOf s pat = None \<longleftrightarrow> \<not> sublist pat s"
  by (simp add: str_indexOf_def indexOf_from_None)

section \<open>AK5 outside a transaction\<close>

text \<open>
  Claim C10. An AK5 segment met while no transaction is open (\<open>currentDocType\<close> is
  empty: no AK2 set a document type, or the last transaction was flushed already) changes
  nothing: \<open>flushTransaction\<close> returns at its first line, so the walker's variables and
  both sinks are as they were, and no message is logged.
\<close>
theorem ak5_without_open_transaction:
  "str_startsWith seg ''AK5'' \<Longrightarrow> currentDocType w = [] \<Longrightarrow>
     flushTransaction ackCode w = w \<and> step sep fname w seg = w"
  by (simp add: step_AK5 on_AK5_def flushTransaction_def)

theorem ak5_without_open_transaction_witness:
  "str_startsWith ''AK5*A'' ''AK5'' \<and> currentDocType (init_walker []) = [] \<and>
   flushTransaction ''A'' (init_walker []) = init_walker [] \<and>
   step (Some ''*'') (Some ''a.edi'') (init_walker []) ''AK5*A'' = init_walker []"
  using ak5_without_open_transaction [of "''AK5*A''" "init_walker []" "''A''" "Some ''*''" "Some ''a.edi''"]
  by (simp add: str_startsWith_def init_walker_def)

section \<open>The message of a closed transaction\<close>

lemma foldl_elem_lines:
  "foldl (\<lambda>m elemErr. m @ elem_line elemErr) message es = message @ concat (map elem_line es)"
  by (induction es arbitrary: message) simp_all

lemma add_seg_eq:
  "add_seg n message (idx, segErr) =
     message @ seg_block segErr @ (if idx < n - 1 then [CHR 0x0A] else [])"
  by (simp add: add_seg_def seg_block_def foldl_elem_lines Let_def)

lemma foldl_add_seg:
  "foldl (add_seg (k + length es)) message (zip [k..<k + length es] es) =
     message @ join_lines (map seg_block es)"
proof (induction es arbitrary: k message)
  case Nil
  show ?case by simp
next
  case (Cons e es)
  have u: "[k..<k + length (e # es)] = k # [Suc k..<Suc k + length es]"
    by (simp del: upt_Suc add: upt_conv_Cons)
  have z: "zip [k..<k + length (e # es)] (e # es) = (k, e) # zip [Suc k..<Suc k + length es] es"
    by (simp only: u zip_Cons_Cons)
  have n: "k + length (e # es) = Suc k + length es" by simp
  show ?case
  proof (cases es)
    case Nil
    then show ?thesis by (simp add: add_seg_eq)
  next
    case c: (Cons e' es')
    have "foldl (add_seg (k + length (e # es))) message (zip [k..<k + length (e # es)] (e # es))
          = foldl (add_seg (k + length (e # es))) (add_seg (k + length (e # es)) message (k, e))
              (zip [Suc k..<Suc k + length es] es)"
      by (simp only: z foldl_Cons)
    also have "\<dots> = foldl (add_seg (Suc k + length es)) (add_seg (Suc k + length es) message (k, e))
              (zip [Suc k..<Suc k + length es] es)"
      by (simp only: n)
    also have "\<dots> = add_seg (Suc k + length es) message (k, e) @ join_lines (map seg_block es)"
      by (rule Cons.IH)
    also have "\<dots> = message @ join_lines (map seg_block (e # es))"
      using c by (simp add: add_seg_eq)
    finally show ?thesis .
  qed
qed

lemma flush_message_eq: "flush_message ackCode w = transaction_text ackCode w"
  using foldl_add_seg [of 0 "currentSegmentErrors w"]
  by (simp add: flush_message_def transaction_text_def transaction_head_def Let_def)

lemma sublist_join_lines: "x \<in> set xs \<Longrightarrow> sublist x (join_lines xs)"
proof (induction xs rule: join_lines.induct)
  case 1
  then show ?case by simp
next
  case (2 x)
  then show ?case by simp
next
  case (3 a b bs)
  show ?case
  proof (cases "x = a")
    case True
    then show ?thesis by simp
  next
    case False
    with 3 have "sublist x (join_lines (b # bs))" by simp
    then show ?thesis
      by (metis join_lines.simps(3) sublist_append append_assoc)
  qed
qed


lemma sublist_trans: "sublist xs ys \<Longrightarrow> sublist ys zs \<Longrightarrow> sublist xs zs"
  by (rule sublist_order.order_trans)

lemma sublist_after_Cons: "sublist xs (ps @ c # xs)"
  using sublist_append_leftI [of xs "ps @ [c]"] by simp

lemma join_lines_in_text:
  "currentSegmentErrors w \<noteq> [] \<Longrightarrow>
   sublist (join_lines (map seg_block (currentSegmentErrors w))) (transaction_text ackCode w)"
  by (simp add: transaction_text_def sublist_after_Cons)

lemma sublist_concat: "x \<in> set xs \<Longrightarrow> sublist x (concat xs)"
  by (induction xs) (auto intro: sublist_trans [OF _ sublist_append_leftI])

lemma seg_line_in_text:
  assumes "segErr \<in> set (currentSegmentErrors w)"
  shows "sublist (seg_line segErr) (transaction_text ackCode w)"
proof -
  have "sublist (seg_line segErr) (seg_block segErr)"
    by (simp add: seg_block_def)
  moreover have "sublist (seg_block segErr) (join_lines (map seg_block (currentSegmentErrors w)))"
    using assms by (intro sublist_join_lines) simp
  moreover have "sublist (join_lines (map seg_block (currentSegmentErrors w)))
                   (transaction_text ackCode w)"
    using assms by (intro join_lines_in_text) auto
  ultimately show ?thesis by (blast intro: sublist_trans)
qed

lemma elem_line_in_text:
  assumes "segErr \<in> set (currentSegmentErrors w)" and "e \<in> set (elementErrors segErr)"
  shows "sublist (elem_line e) (transaction_text ackCode w)"
proof -
  have "sublist (elem_line e) (concat (map elem_line (elementErrors segErr)))"
    using assms(2) by (intro sublist_concat) simp
  then have "sublist (elem_line e) (seg_block segErr)"
    by (auto simp: seg_block_def intro: sublist_trans [OF _ sublist_append_leftI])
  moreover have "sublist (seg_block segErr) (join_lines (map seg_block (currentSegmentErrors w)))"
    using assms(1) by (intro sublist_join_lines) simp
  moreover have "sublist (join_lines (map seg_block (currentSegmentErrors w)))
                   (transaction_text ackCode w)"
    using assms(1) by (intro join_lines_in_text) auto
  ultimately show ?thesis by (blast intro: sublist_trans)
qed

lemma flushTransaction_open:
  "currentDocType w \<noteq> [] \<Longrightarrow>
   flushTransaction ackCode w =
     w\<lparr> sink := sink w @ [(if ackCode = ''R'' then LogError else LogInfo)
                              (transaction_text ackCode w)],
        currentDocType := [], currentControlNumber := [],
        currentSegmentErrors := [], currentSegment := None \<rparr>"
  by (simp add: flushTransaction_def flush_message_eq Let_def)

text \<open>
  Claim C7. An AK5 segment met while a transaction is open (\<open>currentDocType\<close> is not
  empty) emits exactly one message: the head line with the description of the ack code,
  followed by every accumulated segment error and every element error of each. The
  message goes to the error log if and only if the ack code is the string \<open>R\<close>, and to
  the info log otherwise. After the step the document type, the control number, the
  accumulated segment errors and the current segment error are all empty; the overall
  status and the acknowledged group number are untouched.
\<close>
theorem ak5_closes_transaction:
  assumes "str_startsWith seg ''AK5''" and "currentDocType w \<noteq> []"
  shows "let ackCode = elem_or (safeSplit (Some seg) sep) 1 [];
             message = transaction_text ackCode w;
             w' = step sep fname w seg
         in sink w' = sink w @ [if ackCode = ''R'' then LogError message else LogInfo message]
          \<and> (\<forall>segErr \<in> set (currentSegmentErrors w).
                sublist (seg_line segErr) message
              \<and> (\<forall>e \<in> set (elementErrors segErr). sublist (elem_line e) message))
          \<and> currentDocType w' = [] \<and> currentControlNumber w' = []
          \<and> currentSegmentErrors w' = [] \<and> currentSegment w' = None
          \<and> overallStatus w' = overallStatus w \<and> ak102 w' = ak102 w"
  using assms
  by (simp add: Let_def step_AK5 on_AK5_def flushTransaction_open seg_line_in_text
        elem_line_in_text)

lemma open_walker_eq:
  "open_walker =
  \<lparr>currentDocType = ''850'', currentControlNumber = ''0001'',
     currentSegmentErrors =
       [\<lparr>segId = ''N1'', segPos = ''4'', loopId = [],
           segError = Str ''Segment has data element errors'',
           elementErrors =
             [\<lparr>pos = ''66'', error = Str ''Mandatory data element missing'',
                 evalue = ''X''\<rparr>]\<rparr>],
     currentSegment = Some 0, overallStatus = ''A'', ak102 = None,
     sink = []\<rparr>"
  unfolding open_walker_def by code_simp

theorem ak5_closes_transaction_witness:
  "str_startsWith ''AK5*R'' ''AK5'' \<and> currentDocType open_walker \<noteq> [] \<and>
   step (Some ''*'') (Some ''a.edi'') open_walker ''AK5*R'' =
     (init_walker
        [LogError (''Transaction 850 #0001: Rejected'' @ [CHR 0x0A] @
           ''  Segment N1 at position 4: Segment has data element errors'' @ [CHR 0x0A] @
           ''    Element 66: Mandatory data element missing [value: '' @ [CHR 0x22] @ ''X''
             @ [CHR 0x22] @ '']'')])"
proof -
  have h1: "str_startsWith ''AK5*R'' ''AK5''" by (simp add: str_startsWith_def)
  have h2: "currentDocType open_walker \<noteq> []" by (simp add: open_walker_eq)
  have t: "transaction_text ''R'' open_walker = ''Transaction 850 #0001: Rejected'' @ [CHR 0x0A] @
           ''  Segment N1 at position 4: Segment has data element errors'' @ [CHR 0x0A] @
           ''    Element 66: Mandatory data element missing [value: '' @ [CHR 0x22] @ ''X''
             @ [CHR 0x22] @ '']''"
    unfolding open_walker_def by code_simp
  have c: "elem_or (safeSplit (Some ''AK5*R'') (Some ''*'')) 1 [] = ''R''" by code_simp
  have s: "overallStatus open_walker = ''A''" "ak102 open_walker = None" "sink open_walker = []"
    by (simp_all add: open_walker_eq)
  from ak5_closes_transaction [OF h1 h2, of "Some ''*''" "Some ''a.edi''"]
  have "step (Some ''*'') (Some ''a.edi'') open_walker ''AK5*R'' =
     (init_walker [LogError (transaction_text ''R'' open_walker)])"
    unfolding Let_def c by (simp add: init_walker_def s)
  with h1 h2 show ?thesis unfolding t by simp
qed

section \<open>The current segment error\<close>

lemma cursor_ok_step: "cursor_ok w \<Longrightarrow> cursor_ok (step sep fname w seg)"
proof (cases rule: step_cases [of seg sep fname w])
  case AK1
  assume "cursor_ok w"
  then show ?thesis unfolding AK1(2)
    by (simp add: cursor_ok_def on_AK1_def Let_def split: option.splits)
next
  case AK2
  show ?thesis unfolding AK2(2) by (simp add: cursor_ok_def on_AK2_def Let_def)
next
  case AK3
  show ?thesis unfolding AK3(2) by (simp add: cursor_ok_def on_AK3_def Let_def)
next
  case AK4
  assume "cursor_ok w"
  then show ?thesis unfolding AK4(2)
    by (simp add: cursor_ok_def on_AK4_def Let_def split: option.splits)
next
  case AK5
  assume "cursor_ok w"
  then show ?thesis unfolding AK5(2)
    by (simp add: cursor_ok_def on_AK5_def flushTransaction_def Let_def split: option.splits)
next
  case AK9
  assume "cursor_ok w"
  then show ?thesis unfolding AK9(2)
    by (simp add: cursor_ok_def on_AK9_def Let_def split: option.splits)
next
  case other
  assume "cursor_ok w"
  then show ?thesis unfolding other(2) .
qed

lemma cursor_ok_walk: "cursor_ok w \<Longrightarrow> cursor_ok (walk sep fname w segs)"
  unfolding walk_def by (induction segs arbitrary: w) (simp_all add: cursor_ok_step)

lemma walk_Cons: "walk sep fname w (seg # rest) = walk sep fname (step sep fname w seg) rest"
  by (simp add: walk_def)

text \<open>
  Claim C8. At every point of every walk the cursor is well formed (\<open>cursor_ok\<close>): no
  segment error is current, or exactly one is, the last one accumulated. An AK4 segment
  met while none is current records no element error: the step returns the state it was
  given, sinks included, and the walk goes on as if the segment were not there. The step
  has no failing branch.
\<close>
theorem ak4_without_current_segment:
  "cursor_ok (walk sep fname (init_walker evs) segs) \<and>
   (str_startsWith seg ''AK4'' \<and> currentSegment w = None \<longrightarrow>
      step sep fname w seg = w \<and> walk sep fname w (seg # rest) = walk sep fname w rest)"
proof
  have "cursor_ok (init_walker evs)"
    by (simp add: cursor_ok_def init_walker_def)
  then show "cursor_ok (walk sep fname (init_walker evs) segs)"
    by (rule cursor_ok_walk)
next
  show "str_startsWith seg ''AK4'' \<and> currentSegment w = None \<longrightarrow>
      step sep fname w seg = w \<and> walk sep fname w (seg # rest) = walk sep fname w rest"
    by (simp add: walk_Cons step_AK4 on_AK4_def Let_def)
qed

theorem ak4_without_current_segment_witness:
  "cursor_ok (walk (Some ''*'') (Some ''a.edi'') (init_walker []) [''AK3*N1*4**8'', ''AK4*1*66*1'']) \<and>
   str_startsWith ''AK4*1*66*1'' ''AK4'' \<and> currentSegment (init_walker []) = None \<and>
   step (Some ''*'') (Some ''a.edi'') (init_walker []) ''AK4*1*66*1'' = init_walker [] \<and>
   walk (Some ''*'') (Some ''a.edi'') (init_walker []) [''AK4*1*66*1'', ''AK9*A*1*1*1'']
     = walk (Some ''*'') (Some ''a.edi'') (init_walker []) [''AK9*A*1*1*1'']"
  using ak4_without_current_segment [of "Some ''*''" "Some ''a.edi''" "[]"
          "[''AK3*N1*4**8'', ''AK4*1*66*1'']" "''AK4*1*66*1''" "init_walker []" "[''AK9*A*1*1*1'']"]
  by (simp add: str_startsWith_def init_walker_def)

section \<open>The overall status\<close>

lemma upper_aux1: "97 \<le> n \<Longrightarrow> n \<le> 122 \<Longrightarrow> (n - 32) mod 256 = (65::nat) \<Longrightarrow> n = 97"
proof -
  assume a: "97 \<le> n" "n \<le> 122" and m: "(n - 32) mod 256 = (65::nat)"
  from a have "n - 32 < 256" by linarith
  then have "(n - 32) mod 256 = n - 32" by (rule mod_less)
  with m have "n - 32 = 65" by simp
  with a show ?thesis by linarith
qed

lemma upper_aux2: "char_of (of_char c - (32::nat)) = CHR ''A'' \<Longrightarrow> (of_char c - (32::nat)) mod 256 = 65"
proof -
  assume "char_of (of_char c - (32::nat)) = CHR ''A''"
  then have "(of_char (char_of (of_char c - (32::nat)) :: char) :: nat) = of_char (CHR ''A'')"
    by (rule arg_cong)
  then show ?thesis by (simp add: of_char_of)
qed

lemma upper_aux3: "of_char c = (97::nat) \<Longrightarrow> c = CHR ''a''"
proof -
  assume "of_char c = (97::nat)"
  moreover have "(of_char (CHR ''a'') :: nat) = 97" by simp
  ultimately have "(of_char c :: nat) = of_char (CHR ''a'')" by (rule trans [OF _ sym])
  then show ?thesis by (simp only: of_char_eq_iff)
qed

lemma upper_aux4: "upper_char (CHR ''A'') = CHR ''A''" "upper_char (CHR ''a'') = CHR ''A''"
  by (simp_all add: upper_char_def char_of_eq_iff take_bit_eq_mod)

lemma upper_char_A: "upper_char c = CHR ''A'' \<longleftrightarrow> c = CHR ''A'' \<or> c = CHR ''a''"
proof
  assume h: "upper_char c = CHR ''A''"
  show "c = CHR ''A'' \<or> c = CHR ''a''"
  proof (cases "(97::nat) \<le> of_char c \<and> of_char c \<le> (122::nat)")
    case True
    with h have "char_of (of_char c - (32::nat)) = CHR ''A''" by (simp only: upper_char_def simp_thms if_True)
    then have "(of_char c - (32::nat)) mod 256 = 65" by (rule upper_aux2)
    with True have "of_char c = (97::nat)" using upper_aux1 by blast
    then show ?thesis using upper_aux3 by blast
  next
    case False
    with h show ?thesis by (simp only: upper_char_def simp_thms if_False)
  qed
next
  assume "c = CHR ''A'' \<or> c = CHR ''a''"
  then show "upper_char c = CHR ''A''" using upper_aux4 by blast
qed

lemma toUpperCase_A: "str_toUpperCase c = ''A'' \<longleftrightarrow> c = ''A'' \<or> c = ''a''"
proof (cases c)
  case Nil
  then show ?thesis by (simp add: str_toUpperCase_def)
next
  case (Cons x xs)
  then show ?thesis
    using upper_char_A [of x] by (cases xs) (auto simp: str_toUpperCase_def)
qed

lemma not_accepted_not_A: "str_toUpperCase c \<noteq> ''A'' \<Longrightarrow> c \<noteq> ''A''"
  by (simp add: toUpperCase_A)

lemma overallStatus_flush: "overallStatus (flushTransaction ackCode w) = overallStatus w"
  by (simp add: flushTransaction_def Let_def)

lemma overallStatus_on_AK9:
  "overallStatus (on_AK9 sep fname w seg) =
     (let c = elem_or (safeSplit (Some seg) sep) 1 []
      in if str_toUpperCase c \<noteq> ''A'' \<and> overallStatus w = ''A'' then c else overallStatus w)"
  by (simp add: on_AK9_def Let_def)

lemma overallStatus_step:
  "overallStatus (step sep fname w seg) =
     (if str_startsWith seg ''AK9''
      then (let c = elem_or (safeSplit (Some seg) sep) 1 []
            in if str_toUpperCase c \<noteq> ''A'' \<and> overallStatus w = ''A'' then c
               else overallStatus w)
      else overallStatus w)"
proof (cases rule: step_cases [of seg sep fname w])
  case AK1
  then show ?thesis using startsWith_AK [of seg "CHR ''1''" "CHR ''9''"]
    by (simp add: on_AK1_def Let_def)
next
  case AK2
  then show ?thesis using startsWith_AK [of seg "CHR ''2''" "CHR ''9''"]
    by (simp add: on_AK2_def Let_def)
next
  case AK3
  then show ?thesis using startsWith_AK [of seg "CHR ''3''" "CHR ''9''"]
    by (simp add: on_AK3_def Let_def)
next
  case AK4
  then show ?thesis using startsWith_AK [of seg "CHR ''4''" "CHR ''9''"]
    by (simp add: on_AK4_def Let_def split: option.splits)
next
  case AK5
  then show ?thesis using startsWith_AK [of seg "CHR ''5''" "CHR ''9''"]
    by (simp add: on_AK5_def Let_def overallStatus_flush)
next
  case AK9
  then show ?thesis by (simp add: overallStatus_on_AK9)
next
  case other
  then show ?thesis by simp
qed

lemma ak9_codes_Cons:
  "ak9_codes sep (seg # segs) =
     (if str_startsWith seg ''AK9'' then elem_or (safeSplit (Some seg) sep) 1 [] # ak9_codes sep segs
      else ak9_codes sep segs)"
  by (simp add: ak9_codes_def)

lemma overallStatus_walk:
  "overallStatus (walk sep fname w segs) =
     (if overallStatus w = ''A'' then first_error_wins (ak9_codes sep segs) else overallStatus w)"
proof (induction segs arbitrary: w)
  case Nil
  show ?case by (simp add: walk_def ak9_codes_def first_error_wins_def)
next
  case (Cons seg segs)
  show ?case
    unfolding walk_Cons Cons.IH overallStatus_step ak9_codes_Cons
    by (auto simp: Let_def first_error_wins_def dest: not_accepted_not_A)
qed

section \<open>The classifier and the batch in closed form\<close>

lemma try_no_body:
  "body f = None \<Longrightarrow> \<exists>err. parse997File_try f = (Inl err, [])"
  by (simp add: parse997File_try_def)

lemma try_no_isa:
  "body f = Some b \<Longrightarrow> str_indexOf b ''ISA'' = None \<Longrightarrow>
     parse997File_try f = (Inr (not_997 f), [])"
  by (simp add: parse997File_try_def)

lemma try_not_997:
  "body f = Some b \<Longrightarrow> str_indexOf b ''ISA'' = Some i \<Longrightarrow> file_st01 b \<noteq> ''997'' \<Longrightarrow>
     parse997File_try f = (Inr (not_997 f), [])"
  by (simp add: parse997File_try_def file_st01_def file_segments_def file_sep_def Let_def)

lemma try_997:
  "body f = Some b \<Longrightarrow> str_indexOf b ''ISA'' = Some i \<Longrightarrow> file_st01 b = ''997'' \<Longrightarrow>
     \<exists>evs. fst (parse997File_try f) =
        Inr \<lparr> is997 = True, file' = f,
              status = Some (overallStatus
                 (walk (file_sep b) (file_name f) (init_walker evs) (file_segments b))) \<rparr>"
  by (simp add: parse997File_try_def file_st01_def file_segments_def file_sep_def Let_def) blast

lemma try_Inl_iff: "(\<exists>err evs. parse997File_try f = (Inl err, evs)) \<longleftrightarrow> body f = None"
proof (cases "body f")
  case None
  then show ?thesis using try_no_body by blast
next
  case (Some b)
  show ?thesis
  proof (cases "str_indexOf b ''ISA''")
    case None
    with Some show ?thesis by (simp add: try_no_isa)
  next
    case i: (Some i)
    show ?thesis
    proof (cases "file_st01 b = ''997''")
      case True
      from try_997 [OF Some i True] obtain evs where
        "fst (parse997File_try f) = Inr \<lparr> is997 = True, file' = f,
              status = Some (overallStatus
                 (walk (file_sep b) (file_name f) (init_walker evs) (file_segments b))) \<rparr>"
        by blast
      with Some show ?thesis by auto
    next
      case False
      with Some i show ?thesis by (simp add: try_not_997)
    qed
  qed
qed

lemma try_Inl_no_events: "parse997File_try f = (Inl err, evs) \<Longrightarrow> evs = []"
proof -
  assume a: "parse997File_try f = (Inl err, evs)"
  then have "body f = None" using try_Inl_iff by blast
  then obtain err' where "parse997File_try f = (Inl err', [])" using try_no_body by blast
  with a show ?thesis by simp
qed

lemma classify_cases:
  "classify f =
     (case body f of
        None \<Rightarrow> not_997 f
      | Some b \<Rightarrow>
          if str_indexOf b ''ISA'' \<noteq> None \<and> file_st01 b = ''997''
          then \<lparr> is997 = True, file' = f,
                 status = Some (first_error_wins (ak9_codes (file_sep b) (file_segments b))) \<rparr>
          else not_997 f)"
proof (cases "body f")
  case None
  then obtain err where "parse997File_try f = (Inl err, [])" using try_no_body by blast
  with None show ?thesis by (simp add: classify_def parse997File_def)
next
  case (Some b)
  show ?thesis
  proof (cases "str_indexOf b ''ISA''")
    case None
    with Some show ?thesis by (simp add: classify_def parse997File_def try_no_isa)
  next
    case i: (Some i)
    show ?thesis
    proof (cases "file_st01 b = ''997''")
      case True
      from try_997 [OF Some i True] obtain evs where
        e: "fst (parse997File_try f) = Inr \<lparr> is997 = True, file' = f,
              status = Some (overallStatus
                 (walk (file_sep b) (file_name f) (init_walker evs) (file_segments b))) \<rparr>"
        by blast
      have "overallStatus (init_walker evs) = ''A''" by (simp add: init_walker_def)
      then have "overallStatus (walk (file_sep b) (file_name f) (init_walker evs) (file_segments b))
           = first_error_wins (ak9_codes (file_sep b) (file_segments b))"
        by (simp add: overallStatus_walk)
      with e have "fst (parse997File_try f) = Inr \<lparr> is997 = True, file' = f,
              status = Some (first_error_wins (ak9_codes (file_sep b) (file_segments b))) \<rparr>"
        by simp
      then have "classify f = \<lparr> is997 = True, file' = f,
              status = Some (first_error_wins (ak9_codes (file_sep b) (file_segments b))) \<rparr>"
        by (cases "parse997File_try f") (simp add: classify_def parse997File_def)
      with Some i True show ?thesis by simp
    next
      case False
      with Some i show ?thesis by (simp add: classify_def parse997File_def try_not_997)
    qed
  qed
qed

lemma file'_classify: "file' (classify f) = f"
  by (simp add: classify_cases not_997_def split: option.splits)

lemma batch_step_payload:
  "payload (batch_step b f) = payload b @ (if is997 (classify f) then [f] else [])"
  using file'_classify [of f]
  by (cases "parse997File f") (simp add: batch_step_def classify_def Let_def)

lemma batch_step_accepted:
  "accepted (batch_step b f) =
     accepted b @ (if is997 (classify f) \<and> status (classify f) = Some ''A'' then [f] else [])"
  using file'_classify [of f]
  by (cases "parse997File f") (simp add: batch_step_def classify_def Let_def)

lemma batch_step_rejected:
  "rejected (batch_step b f) =
     rejected b @ (if is997 (classify f) \<and> status (classify f) \<noteq> Some ''A'' then [f] else [])"
  using file'_classify [of f]
  by (cases "parse997File f") (simp add: batch_step_def classify_def Let_def)

lemma run_batch_snoc: "run_batch (fs @ [f]) = batch_step (run_batch fs) f"
  by (simp add: run_batch_def)

lemma run_batch_payload: "payload (run_batch fs) = filter (\<lambda>f. is997 (classify f)) fs"
proof (induction fs rule: rev_induct)
  case Nil
  show ?case by (simp add: run_batch_def)
next
  case (snoc f fs)
  then show ?case by (simp add: run_batch_snoc batch_step_payload)
qed

lemma run_batch_accepted:
  "accepted (run_batch fs) =
     filter (\<lambda>f. is997 (classify f) \<and> status (classify f) = Some ''A'') fs"
proof (induction fs rule: rev_induct)
  case Nil
  show ?case by (simp add: run_batch_def)
next
  case (snoc f fs)
  then show ?case by (simp add: run_batch_snoc batch_step_accepted)
qed

lemma run_batch_rejected:
  "rejected (run_batch fs) =
     filter (\<lambda>f. is997 (classify f) \<and> status (classify f) \<noteq> Some ''A'') fs"
proof (induction fs rule: rev_induct)
  case Nil
  show ?case by (simp add: run_batch_def)
next
  case (snoc f fs)
  then show ?case by (simp add: run_batch_snoc batch_step_rejected)
qed

lemma process_eq:
  "process fs =
     (if \<forall>f \<in> set fs. \<not> is997 (classify f) then Skipped []
      else if \<exists>f \<in> set fs. is997 (classify f) \<and> status (classify f) \<noteq> Some ''A''
      then Error (filter (\<lambda>f. is997 (classify f) \<and> status (classify f) \<noteq> Some ''A'') fs)
      else Success (filter (\<lambda>f. is997 (classify f) \<and> status (classify f) = Some ''A'') fs))"
  by (simp add: process_def Let_def run_batch_payload run_batch_rejected run_batch_accepted
        filter_empty_conv)

lemma payload_of_process:
  "f \<in> set (payload_of (process fs)) \<Longrightarrow> f \<in> set fs \<and> is997 (classify f)"
  by (simp add: process_eq split: if_splits)

section \<open>The disposition of a batch\<close>

lemma classify_accepted_997:
  "classify accepted_997 = \<lparr> is997 = True, file' = accepted_997, status = Some ''A'' \<rparr>"
  by code_simp

lemma classify_rejected_997:
  "classify rejected_997 = \<lparr> is997 = True, file' = rejected_997, status = Some ''R'' \<rparr>"
  by code_simp

lemma classify_plain_text: "classify plain_text = not_997 plain_text"
  by code_simp

text \<open>
  Claim C1. For every batch: if no file is classified as a 997 the disposition is Skipped
  with an empty payload; otherwise, if some classified 997 has a status other than
  \<open>A\<close>, it is Error and the payload is exactly the rejected 997 files, in input order;
  otherwise it is Success and the payload is exactly the accepted 997 files. Every file
  of any payload is an input file that was classified as a 997.
\<close>

theorem batch_disposition:
  "process fs =
     (if \<forall>f \<in> set fs. \<not> is997 (classify f) then Skipped []
      else if \<exists>f \<in> set fs. is997 (classify f) \<and> status (classify f) \<noteq> Some ''A''
      then Error (filter (\<lambda>f. is997 (classify f) \<and> status (classify f) \<noteq> Some ''A'') fs)
      else Success (filter (\<lambda>f. is997 (classify f) \<and> status (classify f) = Some ''A'') fs))
   \<and> (\<forall>f \<in> set (payload_of (process fs)). f \<in> set fs \<and> is997 (classify f))"
proof (intro conjI ballI)
  show "process fs =
     (if \<forall>f \<in> set fs. \<not> is997 (classify f) then Skipped []
      else if \<exists>f \<in> set fs. is997 (classify f) \<and> status (classify f) \<noteq> Some ''A''
      then Error (filter (\<lambda>f. is997 (classify f) \<and> status (classify f) \<noteq> Some ''A'') fs)
      else Success (filter (\<lambda>f. is997 (classify f) \<and> status (classify f) = Some ''A'') fs))"
    by (rule process_eq)
next
  fix f assume "f \<in> set (payload_of (process fs))"
  then show "f \<in> set fs" using payload_of_process by blast
next
  fix f assume "f \<in> set (payload_of (process fs))"
  then show "is997 (classify f)" using payload_of_process by blast
qed

theorem batch_disposition_witness:
  "process [] = Skipped []
   \<and> process [plain_text, accepted_997] = Success [accepted_997]
   \<and> process [accepted_997, plain_text, rejected_997] = Error [rejected_997]"
proof -
  have c: "is997 (classify accepted_997)" "status (classify accepted_997) = Some ''A''"
    "is997 (classify rejected_997)" "status (classify rejected_997) = Some ''R''"
    "\<not> is997 (classify plain_text)"
    by (simp_all add: classify_accepted_997 classify_rejected_997 classify_plain_text not_997_def)
  have 1: "process [] = Skipped []"
    using batch_disposition [of "[]", THEN conjunct1] by simp
  have 2: "process [plain_text, accepted_997] = Success [accepted_997]"
    using batch_disposition [of "[plain_text, accepted_997]", THEN conjunct1] by (simp add: c)
  have 3: "process [accepted_997, plain_text, rejected_997] = Error [rejected_997]"
    using batch_disposition [of "[accepted_997, plain_text, rejected_997]", THEN conjunct1]
    by (simp add: c)
  from 1 2 3 show ?thesis by blast
qed

section \<open>First error wins\<close>

lemma first_error_wins_strict:
  "''a'' \<notin> set codes \<Longrightarrow>
     first_error_wins codes = (case find (\<lambda>c. c \<noteq> ''A'') codes of None \<Rightarrow> ''A'' | Some c \<Rightarrow> c)"
proof -
  assume a: "''a'' \<notin> set codes"
  have "find (\<lambda>c. str_toUpperCase c \<noteq> ''A'') codes = find (\<lambda>c. c \<noteq> ''A'') codes"
    using a by (induction codes) (auto simp: toUpperCase_A)
  then show ?thesis by (simp add: first_error_wins_def)
qed

lemma first_error_wins_all_accepted:
  "\<forall>c \<in> set codes. str_toUpperCase c = ''A'' \<Longrightarrow> first_error_wins codes = ''A''"
proof -
  assume "\<forall>c \<in> set codes. str_toUpperCase c = ''A''"
  then have "find (\<lambda>c. str_toUpperCase c \<noteq> ''A'') codes = None"
    by (simp add: find_None_iff)
  then show ?thesis by (simp add: first_error_wins_def)
qed

lemma classify_997_status:
  assumes "is997 (classify f)"
  shows "\<exists>b. body f = Some b \<and>
           status (classify f) = Some (first_error_wins (ak9_codes (file_sep b) (file_segments b)))"
proof (cases "body f")
  case None
  with assms show ?thesis by (simp add: classify_cases not_997_def)
next
  case (Some b)
  with assms show ?thesis by (simp add: classify_cases not_997_def split: if_splits)
qed

text \<open>
  Claim C3. The overall status starts at \<open>A\<close>. After any sequence of segments it is
  the first AK9 code seen so far that the walker does not take as accepted (the walker's
  test compares the upper case form of the code with \<open>A\<close>), and \<open>A\<close> when there is
  none, in particular when there is no AK9 segment. Once it differs from \<open>A\<close> no later
  segment changes it. Unless one of the codes is the lower case \<open>a\<close>, this is the first
  code different from \<open>A\<close>. The status of a file classified as a 997 is that latched
  code of its own segments.
\<close>

theorem first_error_wins_status:
  "overallStatus (init_walker evs) = ''A''
   \<and> overallStatus (walk sep fname (init_walker evs) segs) = first_error_wins (ak9_codes sep segs)
   \<and> (overallStatus w \<noteq> ''A'' \<longrightarrow> overallStatus (walk sep fname w segs) = overallStatus w)
   \<and> (ak9_codes sep segs = [] \<longrightarrow> overallStatus (walk sep fname (init_walker evs) segs) = ''A'')
   \<and> (''a'' \<notin> set codes \<longrightarrow>
        first_error_wins codes =
          (case find (\<lambda>c. c \<noteq> ''A'') codes of None \<Rightarrow> ''A'' | Some c \<Rightarrow> c))
   \<and> (is997 (classify f) \<longrightarrow>
        (\<exists>b. body f = Some b \<and>
           status (classify f) =
             Some (first_error_wins (ak9_codes (file_sep b) (file_segments b)))))"
proof -
  have i: "overallStatus (init_walker evs) = ''A''" by (simp add: init_walker_def)
  have 1: "overallStatus (walk sep fname (init_walker evs) segs)
             = first_error_wins (ak9_codes sep segs)"
    using i by (simp add: overallStatus_walk)
  have 2: "overallStatus w \<noteq> ''A'' \<longrightarrow> overallStatus (walk sep fname w segs) = overallStatus w"
    by (simp add: overallStatus_walk)
  have 3: "ak9_codes sep segs = [] \<longrightarrow>
             overallStatus (walk sep fname (init_walker evs) segs) = ''A''"
    using 1 by (simp add: first_error_wins_def)
  from i 1 2 3 first_error_wins_strict [of codes] classify_997_status [of f]
  show ?thesis by blast
qed

lemma two_ak9_segments:
  "body two_ak9_997 = Some (isa_header @
          ''GS*FA*S*R*20210101*1200*7*X*004010~ST*997*0001~AK1*PO*123~AK9*a*1*1*1~AK9*E*1*1*1~AK9*R*1*1*0~SE*5*0001~GE*1*7~IEA*1*000000001~'')"
  "ak9_codes (file_sep (isa_header @
          ''GS*FA*S*R*20210101*1200*7*X*004010~ST*997*0001~AK1*PO*123~AK9*a*1*1*1~AK9*E*1*1*1~AK9*R*1*1*0~SE*5*0001~GE*1*7~IEA*1*000000001~''))
     (file_segments (isa_header @
          ''GS*FA*S*R*20210101*1200*7*X*004010~ST*997*0001~AK1*PO*123~AK9*a*1*1*1~AK9*E*1*1*1~AK9*R*1*1*0~SE*5*0001~GE*1*7~IEA*1*000000001~''))
     = [''a'', ''E'', ''R'']"
  "is997 (classify two_ak9_997)"
  by code_simp+

lemma latch_samples:
  "ak9_codes (Some ''*'') [''AK9*a*1*1*1'', ''AK9*E*1*1*1'', ''AK9*R*1*1*0''] = [''a'', ''E'', ''R'']"
  "ak9_codes (Some ''*'') [''ST*997*0001'', ''AK1*PO*123''] = []"
  "first_error_wins [''a'', ''E'', ''R''] = ''E''"
  "first_error_wins [''E'', ''R''] = ''E''"
  by code_simp+

theorem first_error_wins_status_witness:
  "overallStatus (walk (Some ''*'') None (init_walker [])
       [''AK9*a*1*1*1'', ''AK9*E*1*1*1'', ''AK9*R*1*1*0'']) = ''E''
   \<and> overallStatus ((init_walker [])\<lparr> overallStatus := ''E'' \<rparr>) \<noteq> ''A''
   \<and> overallStatus (walk (Some ''*'') None ((init_walker [])\<lparr> overallStatus := ''E'' \<rparr>)
        [''AK9*R*1*1*0'', ''AK9*A*1*1*1'']) = ''E''
   \<and> ak9_codes (Some ''*'') [''ST*997*0001'', ''AK1*PO*123''] = []
   \<and> overallStatus (walk (Some ''*'') None (init_walker []) [''ST*997*0001'', ''AK1*PO*123'']) = ''A''
   \<and> ''a'' \<notin> set [''E'', ''R'']
   \<and> (case find (\<lambda>c. c \<noteq> ''A'') [''E'', ''R''] of None \<Rightarrow> ''A'' | Some c \<Rightarrow> c) = ''E''
   \<and> is997 (classify two_ak9_997)
   \<and> status (classify two_ak9_997) = Some ''E''"
proof -
  note t1 = first_error_wins_status [of "[]" "Some ''*''" None
      "[''AK9*a*1*1*1'', ''AK9*E*1*1*1'', ''AK9*R*1*1*0'']"
      "(init_walker [])\<lparr> overallStatus := ''E'' \<rparr>" "[''E'', ''R'']" two_ak9_997]
  note t2 = first_error_wins_status [of "[]" "Some ''*''" None
      "[''AK9*R*1*1*0'', ''AK9*A*1*1*1'']"
      "(init_walker [])\<lparr> overallStatus := ''E'' \<rparr>" "[''E'', ''R'']" two_ak9_997]
  note t3 = first_error_wins_status [of "[]" "Some ''*''" None
      "[''ST*997*0001'', ''AK1*PO*123'']"
      "(init_walker [])\<lparr> overallStatus := ''E'' \<rparr>" "[''E'', ''R'']" two_ak9_997]
  have a: "overallStatus (walk (Some ''*'') None (init_walker [])
       [''AK9*a*1*1*1'', ''AK9*E*1*1*1'', ''AK9*R*1*1*0'']) = ''E''"
    using t1 by (simp add: latch_samples)
  have b: "overallStatus ((init_walker [])\<lparr> overallStatus := ''E'' \<rparr>) \<noteq> ''A''" by simp
  have c: "overallStatus (walk (Some ''*'') None ((init_walker [])\<lparr> overallStatus := ''E'' \<rparr>)
        [''AK9*R*1*1*0'', ''AK9*A*1*1*1'']) = ''E''"
    using t2 b by simp
  have d: "overallStatus (walk (Some ''*'') None (init_walker []) [''ST*997*0001'', ''AK1*PO*123'']) = ''A''"
    using t3 by (simp add: latch_samples first_error_wins_def)
  have e: "''a'' \<notin> set [''E'', ''R'']" by simp
  have f: "(case find (\<lambda>c. c \<noteq> ''A'') [''E'', ''R''] of None \<Rightarrow> ''A'' | Some c \<Rightarrow> c) = ''E''"
    by simp
  have g: "status (classify two_ak9_997) = Some ''E''"
    using t1 two_ak9_segments by (simp add: latch_samples)
  from a b c d e f g two_ak9_segments(3) latch_samples(2) show ?thesis by blast
qed

section \<open>Case of the accepted code\<close>

lemma overallStatus_step_accepted:
  "str_toUpperCase (elem_or (safeSplit (Some seg) sep) 1 []) = ''A'' \<Longrightarrow>
     overallStatus (step sep fname w seg) = overallStatus w"
  by (simp add: overallStatus_step Let_def)

lemma accepted_member:
  "f \<in> set fs \<Longrightarrow> is997 (classify f) \<Longrightarrow> status (classify f) = Some ''A'' \<Longrightarrow>
     f \<in> set (accepted (run_batch fs)) \<and> f \<notin> set (rejected (run_batch fs))"
  by (simp add: run_batch_accepted run_batch_rejected)

text \<open>
  Claim C9. The latch test of the walker compares the upper case form of the AK9 code with
  \<open>A\<close>, while the batch compares the status itself with \<open>A\<close>. An AK9 segment whose code
  has the upper case form \<open>A\<close> (the lower case \<open>a\<close>, for one) leaves the overall status
  as it was; when all AK9 codes of a walk are such, the status stays the literal \<open>A\<close>;
  and a file classified as a 997 whose AK9 codes are all such has status \<open>A\<close> and is put
  on the accepted list of every batch it is part of, and not on the rejected list.
\<close>

theorem case_insensitive_acceptance:
  "(str_startsWith seg ''AK9'' \<and> str_toUpperCase (elem_or (safeSplit (Some seg) sep) 1 []) = ''A''
      \<longrightarrow> overallStatus (step sep fname w seg) = overallStatus w)
   \<and> ((\<forall>c \<in> set (ak9_codes sep segs). str_toUpperCase c = ''A'')
      \<longrightarrow> overallStatus (walk sep fname (init_walker evs) segs) = ''A'')
   \<and> (body f = Some b \<and> is997 (classify f)
        \<and> (\<forall>c \<in> set (ak9_codes (file_sep b) (file_segments b)). str_toUpperCase c = ''A'')
      \<longrightarrow> status (classify f) = Some ''A''
          \<and> (f \<in> set fs \<longrightarrow> f \<in> set (accepted (run_batch fs))
                               \<and> f \<notin> set (rejected (run_batch fs))))"
proof (intro conjI impI)
  assume "str_startsWith seg ''AK9'' \<and> str_toUpperCase (elem_or (safeSplit (Some seg) sep) 1 []) = ''A''"
  then show "overallStatus (step sep fname w seg) = overallStatus w"
    by (simp add: overallStatus_step_accepted)
next
  assume "\<forall>c \<in> set (ak9_codes sep segs). str_toUpperCase c = ''A''"
  then have "first_error_wins (ak9_codes sep segs) = ''A''"
    by (rule first_error_wins_all_accepted)
  then show "overallStatus (walk sep fname (init_walker evs) segs) = ''A''"
    by (simp add: overallStatus_walk init_walker_def)
next
  assume a: "body f = Some b \<and> is997 (classify f)
        \<and> (\<forall>c \<in> set (ak9_codes (file_sep b) (file_segments b)). str_toUpperCase c = ''A'')"
  then have "first_error_wins (ak9_codes (file_sep b) (file_segments b)) = ''A''"
    using first_error_wins_all_accepted by blast
  with a show s: "status (classify f) = Some ''A''"
    using classify_997_status [of f] by auto
  assume "f \<in> set fs"
  with a s show "f \<in> set (accepted (run_batch fs))" and "f \<notin> set (rejected (run_batch fs))"
    using accepted_member by blast+
qed

lemma lowercase_samples:
  "str_toUpperCase ''a'' = ''A''"
  "elem_or (safeSplit (Some ''AK9*a*1*1*1'') (Some ''*'')) 1 [] = ''a''"
  "ak9_codes (Some ''*'') [''AK1*PO*123'', ''AK9*a*1*1*1''] = [''a'']"
  "body lowercase_997 = Some (isa_header @ ''GS*FA*S*R*20210101*1200*7*X*004010~ST*997*0001~AK1*PO*123~AK9*a*1*1*1~SE*3*0001~GE*1*7~IEA*1*000000001~'')"
  "is997 (classify lowercase_997)"
  "ak9_codes (file_sep (isa_header @ ''GS*FA*S*R*20210101*1200*7*X*004010~ST*997*0001~AK1*PO*123~AK9*a*1*1*1~SE*3*0001~GE*1*7~IEA*1*000000001~'')) (file_segments (isa_header @ ''GS*FA*S*R*20210101*1200*7*X*004010~ST*997*0001~AK1*PO*123~AK9*a*1*1*1~SE*3*0001~GE*1*7~IEA*1*000000001~'')) = [''a'']"
  by code_simp+

theorem case_insensitive_acceptance_witness:
  "str_startsWith ''AK9*a*1*1*1'' ''AK9''
   \<and> str_toUpperCase (elem_or (safeSplit (Some ''AK9*a*1*1*1'') (Some ''*'')) 1 []) = ''A''
   \<and> overallStatus (step (Some ''*'') None (init_walker []) ''AK9*a*1*1*1'') = ''A''
   \<and> overallStatus (walk (Some ''*'') None (init_walker []) [''AK1*PO*123'', ''AK9*a*1*1*1'']) = ''A''
   \<and> is997 (classify lowercase_997)
   \<and> status (classify lowercase_997) = Some ''A''
   \<and> lowercase_997 \<in> set (accepted (run_batch [plain_text, lowercase_997]))
   \<and> lowercase_997 \<notin> set (rejected (run_batch [plain_text, lowercase_997]))"
proof -
  note t = case_insensitive_acceptance [of "''AK9*a*1*1*1''" "Some ''*''" None "init_walker []"
      "[''AK1*PO*123'', ''AK9*a*1*1*1'']" "[]" lowercase_997 "isa_header @ ''GS*FA*S*R*20210101*1200*7*X*004010~ST*997*0001~AK1*PO*123~AK9*a*1*1*1~SE*3*0001~GE*1*7~IEA*1*000000001~''"
      "[plain_text, lowercase_997]"]
  have h1: "str_startsWith ''AK9*a*1*1*1'' ''AK9''" by (simp add: str_startsWith_def)
  have h2: "str_toUpperCase (elem_or (safeSplit (Some ''AK9*a*1*1*1'') (Some ''*'')) 1 []) = ''A''"
    by (simp only: lowercase_samples)
  have h3: "\<forall>c \<in> set (ak9_codes (Some ''*'') [''AK1*PO*123'', ''AK9*a*1*1*1'']). str_toUpperCase c = ''A''"
    by (simp add: lowercase_samples)
  have h4: "\<forall>c \<in> set (ak9_codes (file_sep (isa_header @ ''GS*FA*S*R*20210101*1200*7*X*004010~ST*997*0001~AK1*PO*123~AK9*a*1*1*1~SE*3*0001~GE*1*7~IEA*1*000000001~''))
                (file_segments (isa_header @ ''GS*FA*S*R*20210101*1200*7*X*004010~ST*997*0001~AK1*PO*123~AK9*a*1*1*1~SE*3*0001~GE*1*7~IEA*1*000000001~''))). str_toUpperCase c = ''A''"
    by (simp add: lowercase_samples)
  have a: "overallStatus (step (Some ''*'') None (init_walker []) ''AK9*a*1*1*1'') = ''A''"
    using t h1 h2 by (simp add: init_walker_def)
  have b: "overallStatus (walk (Some ''*'') None (init_walker []) [''AK1*PO*123'', ''AK9*a*1*1*1'']) = ''A''"
    using t h3 by blast
  have c: "status (classify lowercase_997) = Some ''A''"
    using t h4 lowercase_samples(4,5) by blast
  have d: "lowercase_997 \<in> set (accepted (run_batch [plain_text, lowercase_997]))
      \<and> lowercase_997 \<notin> set (rejected (run_batch [plain_text, lowercase_997]))"
    using t h4 lowercase_samples(4,5) by simp
  from h1 h2 a b c d lowercase_samples(5) show ?thesis by blast
qed

section \<open>Files that are not a 997\<close>

lemma parse_not_997:
  "body f = Some b \<Longrightarrow> str_indexOf b ''ISA'' = None \<or> file_st01 b \<noteq> ''997'' \<Longrightarrow>
     parse997File_try f = (Inr (not_997 f), []) \<and> parse997File f = (not_997 f, [])"
proof -
  assume b: "body f = Some b" and h: "str_indexOf b ''ISA'' = None \<or> file_st01 b \<noteq> ''997''"
  have "parse997File_try f = (Inr (not_997 f), [])"
  proof (cases "str_indexOf b ''ISA''")
    case None
    with b show ?thesis by (rule try_no_isa)
  next
    case (Some i)
    with h have "file_st01 b \<noteq> ''997''" by simp
    with b Some show ?thesis by (rule try_not_997)
  qed
  then show ?thesis by (simp add: parse997File_def)
qed

lemma elem_or_997:
  "elem_or xs i [] = ''997'' \<longleftrightarrow> i < length xs \<and> xs ! i = ''997''"
  by (auto simp: elem_or_def)

lemma startsWith_nonempty: "str_startsWith s ''ST'' \<Longrightarrow> s \<noteq> []"
  by (auto simp: str_startsWith_def)

lemma find_startsWith: "find (\<lambda>s. str_startsWith s p) xs = Some st \<Longrightarrow> str_startsWith st p"
  by (auto simp: find_Some_iff)

lemma file_st01_first_ST:
  assumes "find (\<lambda>s. str_startsWith s ''ST'') (file_segments b) = Some st"
  shows "file_st01 b = ''997'' \<longleftrightarrow>
           1 < length (str_split st (file_sep b)) \<and> str_split st (file_sep b) ! 1 = ''997''"
proof -
  have "st \<noteq> []" using assms find_startsWith startsWith_nonempty by blast
  then have "safeSplit (Some st) (file_sep b) = str_split st (file_sep b)"
    by (simp add: safeSplit_def)
  then show ?thesis using assms by (simp add: file_st01_def safeSplit_at_def elem_or_997)
qed

lemma not_classified_not_in_payload:
  "\<not> is997 (classify f) \<Longrightarrow> f \<notin> set (payload_of (process fs))"
  using payload_of_process by blast

text \<open>
  Claim C2. A file whose body does not contain \<open>ISA\<close>, or whose first segment starting
  with \<open>ST\<close> does not have \<open>997\<close> as the second field of its split by the element
  separator, is returned as \<open>{ is997: false, file }\<close> by the \<open>try\<close> block itself: nothing
  is thrown, nothing is logged or published, and the file is in no payload of any batch.
\<close>

theorem not_a_997_excluded:
  assumes "body f = Some b"
    and "\<not> sublist ''ISA'' b
       \<or> (\<exists>st. find (\<lambda>s. str_startsWith s ''ST'') (file_segments b) = Some st
              \<and> \<not> (1 < length (str_split st (file_sep b))
                    \<and> str_split st (file_sep b) ! 1 = ''997''))"
  shows "parse997File_try f = (Inr (not_997 f), [])
       \<and> parse997File f = (not_997 f, [])
       \<and> f \<notin> set (payload_of (process fs))"
proof -
  have h: "str_indexOf b ''ISA'' = None \<or> file_st01 b \<noteq> ''997''"
    using assms(2) by (auto simp: str_indexOf_None file_st01_first_ST)
  then have p: "parse997File_try f = (Inr (not_997 f), []) \<and> parse997File f = (not_997 f, [])"
    using assms(1) parse_not_997 by blast
  then have "\<not> is997 (classify f)" by (simp add: classify_def not_997_def)
  then have "f \<notin> set (payload_of (process fs))" by (rule not_classified_not_in_payload)
  with p show ?thesis by blast
qed

lemma invoice_samples:
  "body invoice_810 = Some (isa_header @ ''GS*IN*S*R*20210101*1200*7*X*004010~ST*810*0001~SE*1*0001~GE*1*7~IEA*1*000000001~'')"
  "find (\<lambda>s. str_startsWith s ''ST'') (file_segments (isa_header @ ''GS*IN*S*R*20210101*1200*7*X*004010~ST*810*0001~SE*1*0001~GE*1*7~IEA*1*000000001~'')) = Some ''ST*810*0001''"
  "str_split ''ST*810*0001'' (file_sep (isa_header @ ''GS*IN*S*R*20210101*1200*7*X*004010~ST*810*0001~SE*1*0001~GE*1*7~IEA*1*000000001~'')) = [''ST'', ''810'', ''0001'']"
  "body plain_text = Some ''hello, world''"
  "\<not> sublist ''ISA'' ''hello, world''"
  "sublist ''ISA'' (isa_header @ ''GS*IN*S*R*20210101*1200*7*X*004010~ST*810*0001~SE*1*0001~GE*1*7~IEA*1*000000001~'')"
  by code_simp+

theorem not_a_997_excluded_witness:
  "\<not> sublist ''ISA'' ''hello, world''
   \<and> parse997File plain_text = (not_997 plain_text, [])
   \<and> plain_text \<notin> set (payload_of (process [plain_text, accepted_997]))
   \<and> sublist ''ISA'' (isa_header @ ''GS*IN*S*R*20210101*1200*7*X*004010~ST*810*0001~SE*1*0001~GE*1*7~IEA*1*000000001~'')
   \<and> find (\<lambda>s. str_startsWith s ''ST'') (file_segments (isa_header @ ''GS*IN*S*R*20210101*1200*7*X*004010~ST*810*0001~SE*1*0001~GE*1*7~IEA*1*000000001~'')) = Some ''ST*810*0001''
   \<and> str_split ''ST*810*0001'' (file_sep (isa_header @ ''GS*IN*S*R*20210101*1200*7*X*004010~ST*810*0001~SE*1*0001~GE*1*7~IEA*1*000000001~'')) ! 1 = ''810''
   \<and> parse997File invoice_810 = (not_997 invoice_810, [])
   \<and> invoice_810 \<notin> set (payload_of (process [invoice_810, accepted_997]))"
proof -
  have h: "\<exists>st. find (\<lambda>s. str_startsWith s ''ST'') (file_segments (isa_header @ ''GS*IN*S*R*20210101*1200*7*X*004010~ST*810*0001~SE*1*0001~GE*1*7~IEA*1*000000001~'')) = Some st
              \<and> \<not> (1 < length (str_split st (file_sep (isa_header @ ''GS*IN*S*R*20210101*1200*7*X*004010~ST*810*0001~SE*1*0001~GE*1*7~IEA*1*000000001~'')))
                    \<and> str_split st (file_sep (isa_header @ ''GS*IN*S*R*20210101*1200*7*X*004010~ST*810*0001~SE*1*0001~GE*1*7~IEA*1*000000001~'')) ! 1 = ''997'')"
    by (simp add: invoice_samples)
  have a: "parse997File plain_text = (not_997 plain_text, [])
       \<and> plain_text \<notin> set (payload_of (process [plain_text, accepted_997]))"
    using not_a_997_excluded [OF invoice_samples(4), of "[plain_text, accepted_997]"]
      invoice_samples(5) by blast
  have b: "parse997File invoice_810 = (not_997 invoice_810, [])
       \<and> invoice_810 \<notin> set (payload_of (process [invoice_810, accepted_997]))"
    using not_a_997_excluded [OF invoice_samples(1), of "[invoice_810, accepted_997]"] h
    by blast
  have c: "str_split ''ST*810*0001'' (file_sep (isa_header @ ''GS*IN*S*R*20210101*1200*7*X*004010~ST*810*0001~SE*1*0001~GE*1*7~IEA*1*000000001~'')) ! 1 = ''810''"
    by (simp add: invoice_samples)
  from a b c invoice_samples show ?thesis by blast
qed

section \<open>Exceptions\<close>

lemma process_without:
  "\<not> is997 (classify f) \<Longrightarrow> process (fs1 @ f # fs2) = process (fs1 @ fs2)"
  by (simp add: process_def Let_def run_batch_payload run_batch_rejected run_batch_accepted)

text \<open>
  Claim C6. When the \<open>try\<close> block of the classifier throws for a file, the classifier
  writes exactly one message, at error severity, made of the file's name and the message
  of the exception, and returns \<open>{ is997: false, file }\<close>. The file is in no payload, and
  the batch lists and the disposition are what they are for the batch without that file.
\<close>

theorem exception_caught_per_file:
  assumes "parse997File_try f = (Inl err, evs)"
  shows "parse997File f =
           (not_997 f,
            [LogError (''Error processing file '' @ opt_text (file_name f) @ '': ''
               @ exn_message err)])
       \<and> f \<notin> set (payload_of (process fs))
       \<and> process (fs1 @ f # fs2) = process (fs1 @ fs2)
       \<and> payload (run_batch (fs1 @ f # fs2)) = payload (run_batch (fs1 @ fs2))
       \<and> accepted (run_batch (fs1 @ f # fs2)) = accepted (run_batch (fs1 @ fs2))
       \<and> rejected (run_batch (fs1 @ f # fs2)) = rejected (run_batch (fs1 @ fs2))"
proof -
  have e: "evs = []" using assms by (rule try_Inl_no_events)
  with assms have p: "parse997File f =
           (not_997 f,
            [LogError (''Error processing file '' @ opt_text (file_name f) @ '': ''
               @ exn_message err)])"
    by (simp add: parse997File_def)
  then have n: "\<not> is997 (classify f)" by (simp add: classify_def not_997_def)
  then have 1: "f \<notin> set (payload_of (process fs))" by (rule not_classified_not_in_payload)
  have 2: "process (fs1 @ f # fs2) = process (fs1 @ fs2)" using n by (rule process_without)
  have 3: "payload (run_batch (fs1 @ f # fs2)) = payload (run_batch (fs1 @ fs2))"
    "accepted (run_batch (fs1 @ f # fs2)) = accepted (run_batch (fs1 @ fs2))"
    "rejected (run_batch (fs1 @ f # fs2)) = rejected (run_batch (fs1 @ fs2))"
    using n by (simp_all add: run_batch_payload run_batch_rejected run_batch_accepted)
  from p 1 2 3 show ?thesis by blast
qed

lemma no_body_try:
  "parse997File_try no_body =
     (Inl (TypeError (''Cannot read properties of undefined (reading '' @ [CHR 0x27]
             @ ''indexOf'' @ [CHR 0x27] @ '')'')), [])"
  by code_simp

theorem exception_caught_per_file_witness:
  "parse997File_try no_body =
     (Inl (TypeError (''Cannot read properties of undefined (reading '' @ [CHR 0x27]
             @ ''indexOf'' @ [CHR 0x27] @ '')'')), [])
   \<and> parse997File no_body =
       (not_997 no_body,
        [LogError (''Error processing file empty.bin: Cannot read properties of undefined (reading ''
           @ [CHR 0x27] @ ''indexOf'' @ [CHR 0x27] @ '')'')])
   \<and> no_body \<notin> set (payload_of (process [accepted_997, no_body]))
   \<and> process ([accepted_997] @ no_body # [rejected_997]) = process ([accepted_997] @ [rejected_997])"
proof -
  have n: "opt_text (file_name no_body) = ''empty.bin''" by code_simp
  from exception_caught_per_file [OF no_body_try, of "[accepted_997, no_body]"
      "[accepted_997]" "[rejected_997]"] no_body_try
  show ?thesis unfolding n by simp
qed

section \<open>The segment terminator\<close>

lemma window_has_no_index_106: "char_at (str_substr b i 106) 106 = None"
  by (simp add: char_at_def str_substr_def)

lemma terminator_one_char:
  "segmentTerminator (parseDelimiters (str_substr b i 106)) = char_at (str_substr b i 106) 105"
  by (simp add: parseDelimiters_def window_has_no_index_106 Let_def)

text \<open>
  Claim C4. The resolver is given the 106 characters from the \<open>ISA\<close> position, reads the
  element separator at offset 3 and the segment terminator at offset 105, and is meant to
  append a carriage return or line feed that follows. At the interchange \<open>lf_body\<close>,
  whose segments end in \<open>~\<close> and a line feed, the character after offset 105 is a line
  feed and the resolved terminator is the single \<open>~\<close>: the window passed by line 86 has
  no index 106, so the test of line 64 never succeeds (on a window of 107 characters it
  does). Every later segment then begins with the line feed, none starts with \<open>ST\<close>,
  and this 997 is returned as not a 997; a batch of it alone is Skipped.
\<close>

theorem line_feed_after_terminator_lost:
  "str_indexOf lf_body ''ISA'' = Some 0
   \<and> elementSep (parseDelimiters (str_substr lf_body 0 106)) = Some ''*''
   \<and> char_at lf_body 105 = Some ''~''
   \<and> char_at lf_body 106 = Some [CHR 0x0A]
   \<and> segmentTerminator (parseDelimiters (str_substr lf_body 0 106)) = Some ''~''
   \<and> segmentTerminator (parseDelimiters (str_substr lf_body 0 107)) = Some (''~'' @ [CHR 0x0A])
   \<and> find (\<lambda>s. str_startsWith s ''ST'') (file_segments lf_body) = None
   \<and> ([CHR 0x0A] @ ''ST*997*0001'') \<in> set (file_segments lf_body)
   \<and> parse997File lf_997 = (not_997 lf_997, [])
   \<and> process [lf_997] = Skipped []"
  by code_simp

section \<open>Code descriptions\<close>

lemma AK3_nonempty: "map_of AK3_ERROR_ENUM code = Some d \<Longrightarrow> d \<noteq> []"
  by (auto simp: AK3_ERROR_ENUM_def split: if_splits)

lemma AK4_nonempty: "map_of AK4_ERROR_ENUM code = Some d \<Longrightarrow> d \<noteq> []"
  by (auto simp: AK4_ERROR_ENUM_def split: if_splits)

lemma AK5_nonempty: "map_of AK5_CODE_ENUM code = Some d \<Longrightarrow> d \<noteq> []"
  by (auto simp: AK5_CODE_ENUM_def split: if_splits)

lemma AK9_nonempty: "map_of AK9_CODE_ENUM code = Some d \<Longrightarrow> d \<noteq> []"
  by (auto simp: AK9_CODE_ENUM_def split: if_splits)

lemma get_prop_own: "map_of t code = Some d \<Longrightarrow> get_prop t code = Str d"
  by (simp add: get_prop_def)

lemma get_prop_absent:
  "map_of t code = None \<Longrightarrow> map_of Object_prototype code = None \<Longrightarrow> get_prop t code = Undefined"
  by (simp add: get_prop_def)

text \<open>
  Claim C5, as amended. In each of the four tables a code that is a key maps to the
  description the table gives. A code that is not a key maps to \<open>Error code\<close> followed
  by the code in the AK3 and AK4 tables, and to the code itself in the AK5 and AK9 tables.
  This is stated for a code that does not name a member inherited from
  \<open>Object.prototype\<close>.
\<close>

theorem code_descriptions:
  "(map_of AK3_ERROR_ENUM code = Some d \<longrightarrow> ak3_errorDesc code = Str d)
   \<and> (map_of AK4_ERROR_ENUM code = Some d \<longrightarrow> ak4_errorDesc code = Str d)
   \<and> (map_of AK5_CODE_ENUM code = Some d \<longrightarrow> ak5_ackDesc code = Str d)
   \<and> (map_of AK9_CODE_ENUM code = Some d \<longrightarrow> ak9_ackDesc code = Str d)
   \<and> (map_of Object_prototype code = None \<longrightarrow>
        (map_of AK3_ERROR_ENUM code = None \<longrightarrow>
           ak3_errorDesc code = Str (''Error code '' @ code))
      \<and> (map_of AK4_ERROR_ENUM code = None \<longrightarrow>
           ak4_errorDesc code = Str (''Error code '' @ code))
      \<and> (map_of AK5_CODE_ENUM code = None \<longrightarrow> ak5_ackDesc code = Str code)
      \<and> (map_of AK9_CODE_ENUM code = None \<longrightarrow> ak9_ackDesc code = Str code))"
proof (intro conjI impI)
  assume "map_of AK3_ERROR_ENUM code = Some d"
  then show "ak3_errorDesc code = Str d"
    using AK3_nonempty by (simp add: ak3_errorDesc_def or_else_def get_prop_own)
next
  assume "map_of AK4_ERROR_ENUM code = Some d"
  then show "ak4_errorDesc code = Str d"
    using AK4_nonempty by (simp add: ak4_errorDesc_def or_else_def get_prop_own)
next
  assume "map_of AK5_CODE_ENUM code = Some d"
  then show "ak5_ackDesc code = Str d"
    using AK5_nonempty by (simp add: ak5_ackDesc_def or_else_def get_prop_own)
next
  assume "map_of AK9_CODE_ENUM code = Some d"
  then show "ak9_ackDesc code = Str d"
    using AK9_nonempty by (simp add: ak9_ackDesc_def or_else_def get_prop_own)
next
  assume "map_of Object_prototype code = None" "map_of AK3_ERROR_ENUM code = None"
  then show "ak3_errorDesc code = Str (''Error code '' @ code)"
    by (simp add: ak3_errorDesc_def or_else_def get_prop_absent)
next
  assume "map_of Object_prototype code = None" "map_of AK4_ERROR_ENUM code = None"
  then show "ak4_errorDesc code = Str (''Error code '' @ code)"
    by (simp add: ak4_errorDesc_def or_else_def get_prop_absent)
next
  assume "map_of Object_prototype code = None" "map_of AK5_CODE_ENUM code = None"
  then show "ak5_ackDesc code = Str code"
    by (simp add: ak5_ackDesc_def or_else_def get_prop_absent)
next
  assume "map_of Object_prototype code = None" "map_of AK9_CODE_ENUM code = None"
  then show "ak9_ackDesc code = Str code"
    by (simp add: ak9_ackDesc_def or_else_def get_prop_absent)
qed

lemma table_samples:
  "map_of AK3_ERROR_ENUM ''8'' = Some ''Segment has data element errors''"
  "map_of AK4_ERROR_ENUM ''16'' = Some ''Composite data structure contains excess trailing delimiters''"
  "map_of AK5_CODE_ENUM ''M'' = Some ''Rejected, message authentication code (MAC) failed''"
  "map_of AK9_CODE_ENUM ''P'' = Some ''Partially accepted''"
  "map_of Object_prototype ''11'' = None"
  "map_of AK3_ERROR_ENUM ''11'' = None"
  "map_of AK4_ERROR_ENUM ''11'' = None"
  "map_of AK5_CODE_ENUM ''11'' = None"
  "map_of AK9_CODE_ENUM ''11'' = None"
  by code_simp+

theorem code_descriptions_witness:
  "ak3_errorDesc ''8'' = Str ''Segment has data element errors''
   \<and> ak4_errorDesc ''16'' = Str ''Composite data structure contains excess trailing delimiters''
   \<and> ak5_ackDesc ''M'' = Str ''Rejected, message authentication code (MAC) failed''
   \<and> ak9_ackDesc ''P'' = Str ''Partially accepted''
   \<and> map_of Object_prototype ''11'' = None
   \<and> map_of AK3_ERROR_ENUM ''11'' = None \<and> ak3_errorDesc ''11'' = Str ''Error code 11''
   \<and> map_of AK4_ERROR_ENUM ''11'' = None \<and> ak4_errorDesc ''11'' = Str ''Error code 11''
   \<and> map_of AK5_CODE_ENUM ''11'' = None \<and> ak5_ackDesc ''11'' = Str ''11''
   \<and> map_of AK9_CODE_ENUM ''11'' = None \<and> ak9_ackDesc ''11'' = Str ''11''"
proof -
  have a: "ak3_errorDesc ''8'' = Str ''Segment has data element errors''"
    using code_descriptions [of "''8''" "''Segment has data element errors''"] table_samples(1)
    by blast
  have b: "ak4_errorDesc ''16'' = Str ''Composite data structure contains excess trailing delimiters''"
    using code_descriptions [of "''16''" "''Composite data structure contains excess trailing delimiters''"]
      table_samples(2) by blast
  have c: "ak5_ackDesc ''M'' = Str ''Rejected, message authentication code (MAC) failed''"
    using code_descriptions [of "''M''" "''Rejected, message authentication code (MAC) failed''"]
      table_samples(3) by blast
  have d: "ak9_ackDesc ''P'' = Str ''Partially accepted''"
    using code_descriptions [of "''P''" "''Partially accepted''"] table_samples(4) by blast
  have e: "ak3_errorDesc ''11'' = Str (''Error code '' @ ''11'')
      \<and> ak4_errorDesc ''11'' = Str (''Error code '' @ ''11'')
      \<and> ak5_ackDesc ''11'' = Str ''11'' \<and> ak9_ackDesc ''11'' = Str ''11''"
    using code_descriptions [of "''11''" "[]"] table_samples(5-9) by blast
  then have e': "ak3_errorDesc ''11'' = Str ''Error code 11''
      \<and> ak4_errorDesc ''11'' = Str ''Error code 11''
      \<and> ak5_ackDesc ''11'' = Str ''11'' \<and> ak9_ackDesc ''11'' = Str ''11''"
    by simp
  from a b c d e' table_samples(5-9) show ?thesis by blast
qed

text \<open>
  The claim as it was stated fails: an AK5 or AK9 code outside its table is described by
  the code itself, and \<open>constructor\<close>, outside the AK3 table, by an inherited function.
\<close>

theorem unmapped_ack_code_counterexample:
  "map_of AK5_CODE_ENUM ''Z'' = None
   \<and> ak5_ackDesc ''Z'' = Str ''Z''
   \<and> ak5_ackDesc ''Z'' \<noteq> Str ''Error code Z''
   \<and> map_of AK9_CODE_ENUM ''Z'' = None
   \<and> ak9_ackDesc ''Z'' = Str ''Z''
   \<and> ak9_ackDesc ''Z'' \<noteq> Str ''Error code Z''
   \<and> map_of AK3_ERROR_ENUM ''constructor'' = None
   \<and> ak3_errorDesc ''constructor'' = Inherited ''function Object() { [native code] }''
   \<and> ak3_errorDesc ''constructor'' \<noteq> Str ''Error code constructor''"
  by code_simp

end
